theory Spec2Isabelle
  imports Complex_Main "HOL-Library.Sublist" "HOL-Library.Option_ord"
    "HOL-Library.List_Lexorder" "HOL-Library.Char_ord"
begin

section \<open>The movement ledger of app.py\<close>

text \<open>
  The program is a Flask application over three SQL tables. This theory embeds the routes
  that read and write the \<open>Movement\<close> table: \<open>api_movements\<close>, \<open>api_products\<close>,
  \<open>plot_sales\<close>, \<open>plot_category\<close>, \<open>predict_sales\<close> and \<open>fiscal_report\<close>.

  Conventions of the embedding.
  \<^item> A table is the list of its rows in insertion order; a query \<open>filter(...).all()\<close> is
    \<open>filter\<close> over that list.
  \<^item> A \<open>datetime.date\<close> is its proleptic Gregorian ordinal (\<open>date.toordinal()\<close>), an
    \<open>int\<close>: Python orders dates by it and does date arithmetic on it. The constructor
    \<open>datetime(year, month, day)\<close> is \<open>py_date\<close>, with Python's range checks.
  \<^item> A floating-point number (a column of type \<open>Float\<close>, a Python \<open>float\<close>) is a value of
    the type variable \<open>'f\<close>. The model does no arithmetic of its own on \<open>'f\<close>: every
    operation on floats is an operation of the library record \<open>pylib\<close>, so a theorem
    about the views holds for whatever the floating-point operations compute,
    rounding, infinities and NaN included.
  \<^item> Python's standard library, SQLite's \<open>SUM\<close>, pandas and scikit-learn are not part of
    the repository; what the views use of them are the fields of \<open>pylib\<close>. The closed
    examples run with the sample library \<open>stdlib\<close>, on reals that stand for doubles.
  \<^item> The spec's kind \<open>sale\<close> is the code's literal \<open>'venta'\<close>, \<open>expense\<close> is \<open>'gasto'\<close>,
    and the category sentinel is the code's \<open>'sin-categoria'\<close>.
  \<^item> An exception that leaves a view function (Flask answers 500) and the 400 reply of
    \<open>predict_sales\<close> are values of type \<open>error\<close>; a view returns \<open>error + 'a\<close>.
  \<^item> Every view is wrapped in \<open>login_required\<close>; the model is the body of the view, run
    for a user who is logged in.
\<close>

subsection \<open>Errors\<close>

datatype error =
    KeyError
  | ValueError
  | TypeError
  | OverflowError
  | IntegrityError  \<comment> \<open>a \<open>NOT NULL\<close> constraint fails at \<open>commit\<close>\<close>
  | OutOfBounds     \<comment> \<open>pandas cannot represent a date (\<open>OutOfBoundsDatetime\<close>, \<open>OverflowError\<close>)\<close>
  | NotEnoughData   \<comment> \<open>the reply \<open>{'error': 'Not enough data for prediction'}, 400\<close>\<close>

subsection \<open>Python's calendar (module datetime)\<close>

type_synonym date = int

definition MINYEAR :: int where
  "MINYEAR = 1"

definition MAXYEAR :: int where
  "MAXYEAR = 9999"

definition MAXORDINAL :: int where
  "MAXORDINAL = 3652059"

definition DAYS_IN_MONTH :: "int list" where
  "DAYS_IN_MONTH = [-1, 31, 28, 31, 30, 31, 30, 31, 31, 30, 31, 30, 31]"

definition DAYS_BEFORE_MONTH :: "int list" where
  "DAYS_BEFORE_MONTH = [-1, 0, 31, 59, 90, 120, 151, 181, 212, 243, 273, 304, 334]"

definition is_leap :: "int \<Rightarrow> bool" where
  "is_leap year \<longleftrightarrow> year mod 4 = 0 \<and> (year mod 100 \<noteq> 0 \<or> year mod 400 = 0)"

definition days_before_year :: "int \<Rightarrow> int" where
  "days_before_year year =
     (let y = year - 1 in y * 365 + y div 4 - y div 100 + y div 400)"

definition days_in_month :: "int \<Rightarrow> int \<Rightarrow> int" where
  "days_in_month year month =
     (if month = 2 \<and> is_leap year then 29 else DAYS_IN_MONTH ! nat month)"

definition days_before_month :: "int \<Rightarrow> int \<Rightarrow> int" where
  "days_before_month year month =
     DAYS_BEFORE_MONTH ! nat month + (if month > 2 \<and> is_leap year then 1 else 0)"

definition ymd2ord :: "int \<Rightarrow> int \<Rightarrow> int \<Rightarrow> date" where
  "ymd2ord year month day =
     days_before_year year + days_before_month year month + day"

text \<open>
  \<open>datetime(year, month, day).date()\<close>. The arguments are first converted to C \<open>int\<close>,
  which raises \<open>OverflowError\<close> outside 32 bits; then come the field checks of the
  constructor, which raise \<open>ValueError\<close>.
\<close>

definition c_int :: "int \<Rightarrow> bool" where
  "c_int n \<longleftrightarrow> - 2147483648 \<le> n \<and> n \<le> 2147483647"

definition py_date :: "int \<Rightarrow> int \<Rightarrow> int \<Rightarrow> error + date" where
  "py_date year month day =
     (if \<not> (c_int year \<and> c_int month \<and> c_int day) then Inl OverflowError
      else if \<not> (MINYEAR \<le> year \<and> year \<le> MAXYEAR) then Inl ValueError
      else if \<not> (1 \<le> month \<and> month \<le> 12) then Inl ValueError
      else if \<not> (1 \<le> day \<and> day \<le> days_in_month year month) then Inl ValueError
      else Inr (ymd2ord year month day))"

text \<open>
  \<open>d + timedelta(days=n)\<close>; \<open>d - timedelta(days=n)\<close> is \<open>date_add_days d (- n)\<close>, as in
  \<open>date.__sub__\<close>. A result outside \<open>date.min .. date.max\<close> raises \<open>OverflowError\<close>.
\<close>

definition date_add_days :: "date \<Rightarrow> int \<Rightarrow> error + date" where
  "date_add_days d n =
     (let o' = d + n in if 0 < o' \<and> o' \<le> MAXORDINAL then Inr o' else Inl OverflowError)"

subsection \<open>The tables\<close>

type_synonym time_of_day = "nat \<times> nat \<times> nat"

record business =
  b_id :: int
  b_name :: string
  owner_id :: int

record 'f product =
  p_id :: int
  p_business_id :: int
  name :: string
  cost :: 'f
  price :: 'f
  stock :: int

record 'f movement =
  m_id :: int
  business_id :: int
  date :: date
  time :: time_of_day
  tipo :: string
  amount :: 'f
  category :: "string option"
  m_note :: "string option"

record 'f store =
  businesses :: "business list"
  products :: "'f product list"
  movements :: "'f movement list"

text \<open>
  An \<open>Integer\<close> primary key of SQLite: a new row gets the largest key of the table plus
  one, and 1 in an empty table. An integer bound to a statement must fit 64 bits;
  otherwise the driver raises \<open>OverflowError\<close>.
\<close>

definition next_id :: "int list \<Rightarrow> int" where
  "next_id ids = fold max ids 0 + 1"

definition sqlite_int :: "int \<Rightarrow> bool" where
  "sqlite_int n \<longleftrightarrow> - 9223372036854775808 \<le> n \<and> n \<le> 9223372036854775807"

subsection \<open>Request bodies and the library\<close>

text \<open>
  \<open>request.json\<close> is a dictionary. In the model \<open>date\<close>, \<open>time\<close>, \<open>tipo\<close>, \<open>category\<close>, \<open>note\<close>
  and \<open>name\<close> are strings when present (\<open>None\<close> is an absent key; a body that carries
  \<open>null\<close> or a number under one of these keys is outside \<open>movement_data\<close>). \<open>amount\<close>,
  \<open>cost\<close>, \<open>price\<close> and \<open>stock\<close> are any JSON value: \<open>null\<close>, a boolean, an integer of any
  size, a float (the parser of Python also reads \<open>NaN\<close> and \<open>Infinity\<close>), a string, or an
  array or object, of which only the kind matters.
\<close>

datatype 'f jval = JNull | JBool bool | JInt int | JFloat 'f | JStr string | JCompound

record 'f movement_data =
  d_date :: "string option"
  d_time :: "string option"
  d_tipo :: "string option"
  d_amount :: "'f jval option"
  d_category :: "string option"
  d_note :: "string option"

record 'f product_data =
  d_name :: "string option"
  d_cost :: "'f jval option"
  d_price :: "'f jval option"
  d_stock :: "'f jval option"

text \<open>
  The library, as the views use it. \<open>'f\<close> is the type of floats and \<open>'m\<close> the type of a
  fitted \<open>LinearRegression\<close>.
  \<^item> \<open>fromisoformat s\<close>: the date and the time of day of \<open>datetime.fromisoformat(s)\<close>,
    \<open>None\<close> where Python raises \<open>ValueError\<close>.
  \<^item> \<open>float_of_str s\<close> is \<open>float(s)\<close> and \<open>int_of_str s\<close> is \<open>int(s)\<close> of a string, \<open>None\<close> for
    \<open>ValueError\<close>; \<open>float_of_int n\<close> is \<open>float(n)\<close> of an integer, \<open>None\<close> for
    \<open>OverflowError\<close>; \<open>int_of_float x\<close> is \<open>int(x)\<close> of a float, which raises for an
    infinity or NaN.
  \<^item> \<open>isnan x\<close>: \<open>x\<close> is NaN, which SQLite stores and returns as \<open>NULL\<close>. \<open>fzero\<close> is \<open>0.0\<close>,
    \<open>is_zero x\<close> is \<open>x == 0\<close> (Python takes such an \<open>x\<close> for false), \<open>fsub a b\<close> is \<open>a - b\<close>.
  \<^item> \<open>py_sum xs\<close> is Python's \<open>sum\<close> of a sequence of floats (the integer \<open>0\<close> that it
    returns for no float counts as \<open>0.0\<close>) and \<open>sqlite_sum xs\<close> is SQLite's \<open>SUM\<close> over a
    column of floats with at least one row. How they add, one rounded addition after
    the other or with a correction term, depends on the version of the library.
  \<^item> \<open>ts_min\<close> and \<open>ts_max\<close>: the first and the last date that a pandas \<open>Timestamp\<close>
    represents; they depend on the resolution of the pandas version.
  \<^item> \<open>linreg_fit X y\<close> is \<open>LinearRegression().fit(X, y)\<close> of scikit-learn, ordinary least
    squares with one feature, \<open>None\<close> where it raises \<open>ValueError\<close> (a target that is
    infinite or NaN); \<open>linreg_predict model x\<close> is \<open>model.predict([[x]])[0]\<close>.
\<close>

record ('f, 'm) pylib =
  fromisoformat :: "string \<Rightarrow> (date \<times> time_of_day) option"
  float_of_str :: "string \<Rightarrow> 'f option"
  float_of_int :: "int \<Rightarrow> 'f option"
  int_of_str :: "string \<Rightarrow> int option"
  int_of_float :: "'f \<Rightarrow> error + int"
  isnan :: "'f \<Rightarrow> bool"
  fzero :: 'f
  is_zero :: "'f \<Rightarrow> bool"
  fsub :: "'f \<Rightarrow> 'f \<Rightarrow> 'f"
  py_sum :: "'f list \<Rightarrow> 'f"
  sqlite_sum :: "'f list \<Rightarrow> 'f"
  ts_min :: date
  ts_max :: date
  linreg_fit :: "int list \<Rightarrow> 'f list \<Rightarrow> 'm option"
  linreg_predict :: "'m \<Rightarrow> int \<Rightarrow> 'f"

definition getitem :: "'a option \<Rightarrow> error + 'a" where
  "getitem v = (case v of None \<Rightarrow> Inl KeyError | Some x \<Rightarrow> Inr x)"

definition parse_iso :: "('f, 'm) pylib \<Rightarrow> string \<Rightarrow> error + (date \<times> time_of_day)" where
  "parse_iso lib s = (case fromisoformat lib s of None \<Rightarrow> Inl ValueError | Some r \<Rightarrow> Inr r)"

text \<open>\<open>float(v)\<close> of a JSON value; \<open>True\<close> and \<open>False\<close> are the integers 1 and 0.\<close>

definition py_float :: "('f, 'm) pylib \<Rightarrow> 'f jval \<Rightarrow> error + 'f" where
  "py_float lib v =
     (case v of
        JNull \<Rightarrow> Inl TypeError
      | JBool b \<Rightarrow>
          (case float_of_int lib (if b then 1 else 0) of
             None \<Rightarrow> Inl OverflowError | Some x \<Rightarrow> Inr x)
      | JInt n \<Rightarrow> (case float_of_int lib n of None \<Rightarrow> Inl OverflowError | Some x \<Rightarrow> Inr x)
      | JFloat x \<Rightarrow> Inr x
      | JStr s \<Rightarrow> (case float_of_str lib s of None \<Rightarrow> Inl ValueError | Some x \<Rightarrow> Inr x)
      | JCompound \<Rightarrow> Inl TypeError)"

text \<open>\<open>int(v)\<close> of a JSON value.\<close>

definition py_int :: "('f, 'm) pylib \<Rightarrow> 'f jval \<Rightarrow> error + int" where
  "py_int lib v =
     (case v of
        JNull \<Rightarrow> Inl TypeError
      | JBool b \<Rightarrow> Inr (if b then 1 else 0)
      | JInt n \<Rightarrow> Inr n
      | JFloat x \<Rightarrow> int_of_float lib x
      | JStr s \<Rightarrow> (case int_of_str lib s of None \<Rightarrow> Inl ValueError | Some x \<Rightarrow> Inr x)
      | JCompound \<Rightarrow> Inl TypeError)"

subsection \<open>api_movements\<close>

text \<open>
  The rows of \<open>GET /api/<bid>/movements\<close>: \<open>Movement.query.filter_by(business_id=bid).all()\<close>,
  and the dictionary the view builds from each row.
\<close>

record 'f movement_json =
  j_id :: int
  j_date :: date
  j_time :: time_of_day
  j_tipo :: string
  j_amount :: 'f
  j_category :: "string option"
  j_note :: "string option"

definition to_json :: "'f movement \<Rightarrow> 'f movement_json" where
  "to_json m =
     \<lparr>j_id = m_id m, j_date = date m, j_time = time m, j_tipo = tipo m,
      j_amount = amount m, j_category = category m, j_note = m_note m\<rparr>"

definition movs :: "'f store \<Rightarrow> int \<Rightarrow> 'f movement list" where
  "movs st bid = filter (\<lambda>m. business_id m = bid) (movements st)"

definition api_movements_get :: "'f store \<Rightarrow> int \<Rightarrow> 'f movement_json list" where
  "api_movements_get st bid = map to_json (movs st bid)"

text \<open>
  \<open>POST /api/<bid>/movements\<close>. The keyword arguments of \<open>Movement(...)\<close> are evaluated in
  the order written, so the first failing one decides the exception. Nothing looks
  \<open>bid\<close> up, compares \<open>tipo\<close> with a literal or tests the sign of the amount, and the
  program never switches SQLite's foreign keys on. At \<open>commit\<close> the \<open>INSERT\<close> fails when
  \<open>bid\<close> does not fit 64 bits and when the amount is NaN (stored as \<open>NULL\<close> in a column
  that is \<open>nullable=False\<close>). The result is the store after the commit and the \<open>id\<close> of
  the reply.
\<close>

definition api_movements_post ::
  "('f, 'm) pylib \<Rightarrow> int \<Rightarrow> 'f movement_data \<Rightarrow> 'f store \<Rightarrow> error + ('f store \<times> int)" where
  "api_movements_post lib bid data st =
     (case getitem (d_date data) of Inl e \<Rightarrow> Inl e | Inr ds \<Rightarrow>
      (case parse_iso lib ds of Inl e \<Rightarrow> Inl e | Inr dd \<Rightarrow>
       (case getitem (d_time data) of Inl e \<Rightarrow> Inl e | Inr ts \<Rightarrow>
        (case parse_iso lib ts of Inl e \<Rightarrow> Inl e | Inr tt \<Rightarrow>
         (case getitem (d_tipo data) of Inl e \<Rightarrow> Inl e | Inr tp \<Rightarrow>
          (case getitem (d_amount data) of Inl e \<Rightarrow> Inl e | Inr a \<Rightarrow>
           (case py_float lib a of Inl e \<Rightarrow> Inl e | Inr amt \<Rightarrow>
             (let m = \<lparr>m_id = next_id (map m_id (movements st)), business_id = bid,
                       date = fst dd, time = snd tt, tipo = tp, amount = amt,
                       category = d_category data, m_note = d_note data\<rparr>
              in if \<not> sqlite_int bid then Inl OverflowError
                 else if isnan lib amt then Inl IntegrityError
                 else Inr (st\<lparr>movements := movements st @ [m]\<rparr>, m_id m)))))))))"

subsection \<open>api_products and create_business\<close>

definition get_default :: "'a option \<Rightarrow> 'a \<Rightarrow> 'a" where
  "get_default v d = (case v of None \<Rightarrow> d | Some x \<Rightarrow> x)"

definition api_products_get :: "'f store \<Rightarrow> int \<Rightarrow> 'f product list" where
  "api_products_get st bid = filter (\<lambda>p. p_business_id p = bid) (products st)"

definition api_products_post ::
  "('f, 'm) pylib \<Rightarrow> int \<Rightarrow> 'f product_data \<Rightarrow> 'f store \<Rightarrow> error + ('f store \<times> int)" where
  "api_products_post lib bid data st =
     (case getitem (d_name data) of Inl e \<Rightarrow> Inl e | Inr nm \<Rightarrow>
      (case py_float lib (get_default (d_cost data) (JInt 0)) of Inl e \<Rightarrow> Inl e | Inr c \<Rightarrow>
       (case py_float lib (get_default (d_price data) (JInt 0)) of Inl e \<Rightarrow> Inl e | Inr pr \<Rightarrow>
        (case py_int lib (get_default (d_stock data) (JInt 0)) of Inl e \<Rightarrow> Inl e | Inr sk \<Rightarrow>
          (let p = \<lparr>p_id = next_id (map p_id (products st)), p_business_id = bid,
                    name = nm, cost = c, price = pr, stock = sk\<rparr>
           in if \<not> (sqlite_int bid \<and> sqlite_int sk) then Inl OverflowError
              else Inr (st\<lparr>products := products st @ [p]\<rparr>, p_id p))))))"

definition create_business :: "int \<Rightarrow> string option \<Rightarrow> 'f store \<Rightarrow> error + 'f store" where
  "create_business uid form_name st =
     (case getitem form_name of Inl e \<Rightarrow> Inl e | Inr nm \<Rightarrow>
        Inr (st\<lparr>businesses := businesses st @
               [\<lparr>b_id = next_id (map b_id (businesses st)), b_name = nm, owner_id = uid\<rparr>]\<rparr>))"

subsection \<open>SQL aggregates\<close>

text \<open>
  \<open>func.sum\<close> over the rows a query selects is \<open>NULL\<close> (Python's \<open>None\<close>) when there is
  no row, and when the sum is NaN (the sum of \<open>inf\<close> and \<open>-inf\<close>), which SQLite returns as
  \<open>NULL\<close>. \<open>float(v or 0)\<close> is \<open>0.0\<close> when \<open>v\<close> is \<open>None\<close> or zero, and \<open>v\<close> otherwise.
\<close>

definition sql_sum :: "('f, 'm) pylib \<Rightarrow> 'f list \<Rightarrow> 'f option" where
  "sql_sum lib xs =
     (if xs = [] then None
      else (let s = sqlite_sum lib xs in if isnan lib s then None else Some s))"

definition or_0 :: "('f, 'm) pylib \<Rightarrow> 'f option \<Rightarrow> 'f" where
  "or_0 lib v = (case v of None \<Rightarrow> fzero lib | Some x \<Rightarrow> if is_zero lib x then fzero lib else x)"

text \<open>
  \<open>query(key, func.sum(val)).group_by(key).all()\<close>: one row per distinct key, with the
  sum over the rows of that key, which are in the order of the table. SQLite sorts the
  rows to group them and returns the groups in ascending order of the key, \<open>NULL\<close>
  first and strings byte by byte; that is the order of \<open>string option\<close> here. A group
  has at least one row. A sum that is NaN stands for the \<open>NULL\<close> that Python receives.
\<close>

definition group_sum :: "('f, 'm) pylib \<Rightarrow> ('k::linorder \<times> 'f) list \<Rightarrow> ('k \<times> 'f) list" where
  "group_sum lib rows =
     map (\<lambda>k. (k, sqlite_sum lib (map snd (filter (\<lambda>r. fst r = k) rows))))
         (sort (remdups (map fst rows)))"

subsection \<open>plot_sales\<close>

text \<open>
  \<open>bid\<close> is \<open>request.args.get('bid', type=int)\<close>, \<open>None\<close> when the parameter is missing or
  is no integer; \<open>Movement.business_id == None\<close> then selects no row. The query inside
  the loop filters on the business and the day only. \<open>today\<close> is
  \<open>datetime.now().date()\<close>. \<open>pd.date_range\<close> turns both ends into timestamps, which
  fails outside the range of pandas. The result is the pair of series handed to
  \<open>ax.plot\<close>.
\<close>

definition date_range :: "('f, 'm) pylib \<Rightarrow> date \<Rightarrow> date \<Rightarrow> error + date list" where
  "date_range lib start stop =
     (if ts_min lib \<le> start \<and> stop \<le> ts_max lib then Inr [start..stop] else Inl OutOfBounds)"

definition day_total :: "('f, 'm) pylib \<Rightarrow> 'f store \<Rightarrow> int option \<Rightarrow> date \<Rightarrow> 'f" where
  "day_total lib st bid d =
     or_0 lib (sql_sum lib (map amount
       (filter (\<lambda>m. Some (business_id m) = bid \<and> date m = d) (movements st))))"

definition plot_sales ::
  "('f, 'm) pylib \<Rightarrow> 'f store \<Rightarrow> int option \<Rightarrow> date \<Rightarrow> error + (date list \<times> 'f list)" where
  "plot_sales lib st bid today =
     (case date_add_days today (- 29) of Inl e \<Rightarrow> Inl e | Inr start \<Rightarrow>
      (case date_range lib start today of Inl e \<Rightarrow> Inl e | Inr dates \<Rightarrow>
        (let totals = map (\<lambda>d. day_total lib st bid d) dates
         in Inr (dates, totals))))"

subsection \<open>plot_category\<close>

text \<open>
  \<open>r[0] or 'sin-categoria'\<close>: the sentinel replaces \<open>None\<close> and also the empty string,
  which Python takes for false. \<open>float(r[1])\<close> raises \<open>TypeError\<close> for a sum that came back
  as \<open>NULL\<close>. The result is \<open>(cats, vals)\<close>, the labels and the values of the pie chart.
\<close>

definition label :: "string option \<Rightarrow> string" where
  "label c = (case c of None \<Rightarrow> ''sin-categoria'' | Some s \<Rightarrow> if s = [] then ''sin-categoria'' else s)"

definition category_rows ::
  "('f, 'm) pylib \<Rightarrow> 'f store \<Rightarrow> int option \<Rightarrow> (string option \<times> 'f) list" where
  "category_rows lib st bid =
     group_sum lib (map (\<lambda>m. (category m, amount m))
       (filter (\<lambda>m. Some (business_id m) = bid) (movements st)))"

definition plot_category ::
  "('f, 'm) pylib \<Rightarrow> 'f store \<Rightarrow> int option \<Rightarrow> error + (string list \<times> 'f list)" where
  "plot_category lib st bid =
     (let rows = category_rows lib st bid;
          cats = map (\<lambda>r. label (fst r)) rows
      in if list_ex (\<lambda>r. isnan lib (snd r)) rows then Inl TypeError
         else (let vals = map snd rows in Inr (cats, vals)))"

subsection \<open>predict_sales\<close>

text \<open>
  The grouped query gives one row per date with a movement of kind \<open>'venta'\<close>.
  \<open>pd.to_datetime(df['date'])\<close> fails when pandas cannot represent one of the dates. The
  features are the ordinals of the dates, the targets the daily sums; a sum that is NaN
  reaches the regression as a missing value, a target that it refuses.
  \<open>pd.to_datetime(last) + pd.Timedelta(days=i)\<close> and \<open>d.toordinal()\<close>, \<open>d.date()\<close> need the
  day \<open>last + i\<close> to be a pandas timestamp and a \<open>datetime.date\<close>; the first \<open>i\<close> for which
  it is not raises, and nothing is returned.
\<close>

definition sales_rows :: "('f, 'm) pylib \<Rightarrow> 'f store \<Rightarrow> int \<Rightarrow> (date \<times> 'f) list" where
  "sales_rows lib st bid =
     group_sum lib (map (\<lambda>m. (date m, amount m))
       (filter (\<lambda>m. business_id m = bid \<and> tipo m = ''venta'') (movements st)))"

definition forecast_day :: "('f, 'm) pylib \<Rightarrow> date \<Rightarrow> bool" where
  "forecast_day lib d \<longleftrightarrow> d \<le> ts_max lib \<and> d \<le> MAXORDINAL"

definition predict_sales ::
  "('f, 'm) pylib \<Rightarrow> 'f store \<Rightarrow> int \<Rightarrow> error + (date \<times> 'f) list" where
  "predict_sales lib st bid =
     (let rows = sales_rows lib st bid in
      if length rows < 5 then Inl NotEnoughData
      else if \<not> list_all (\<lambda>r. ts_min lib \<le> fst r \<and> fst r \<le> ts_max lib) rows
        then Inl OutOfBounds
      else
        (let X = map fst rows;
             y = map snd rows
         in case linreg_fit lib X y of
              None \<Rightarrow> Inl ValueError
            | Some model \<Rightarrow>
                (let last_date = Max (set (map fst rows));
                     days = map (\<lambda>i. last_date + i) [1..7]
                 in if \<not> list_all (forecast_day lib) days then Inl OutOfBounds
                    else Inr (map (\<lambda>d. (d, linreg_predict lib model d)) days))))"

subsection \<open>fiscal_report\<close>

record 'f fiscal =
  f_year :: int
  f_month :: int
  sales :: 'f
  expenses :: 'f
  profit :: 'f

definition fiscal_report ::
  "('f, 'm) pylib \<Rightarrow> 'f store \<Rightarrow> int \<Rightarrow> int \<Rightarrow> int \<Rightarrow> error + 'f fiscal" where
  "fiscal_report lib st bid year month =
     (case py_date year month 1 of Inl e \<Rightarrow> Inl e | Inr start \<Rightarrow>
      (case (if month = 12 then py_date (year + 1) 1 1 else py_date year (month + 1) 1) of
         Inl e \<Rightarrow> Inl e
       | Inr first_next \<Rightarrow>
        (case date_add_days first_next (- 1) of Inl e \<Rightarrow> Inl e | Inr stop \<Rightarrow>
          (let rows = filter (\<lambda>m. business_id m = bid \<and> date m \<ge> start \<and> date m \<le> stop)
                        (movements st);
               total_sales = py_sum lib (map amount (filter (\<lambda>r. tipo r = ''venta'') rows));
               total_expenses = py_sum lib (map amount (filter (\<lambda>r. tipo r = ''gasto'') rows))
           in Inr \<lparr>f_year = year, f_month = month, sales = total_sales,
                   expenses = total_expenses,
                   profit = fsub lib total_sales total_expenses\<rparr>))))"

subsection \<open>The views as operations on the store\<close>

text \<open>
  One constructor per route that reaches the database, with the arguments the view reads.
  \<open>store_after\<close> is the content of the tables once the request is answered. Only
  \<open>create_business\<close> and the POST branches of \<open>api_movements\<close> and \<open>api_products\<close> call
  \<open>db.session.add\<close> and \<open>commit\<close>; when one of them raises, nothing was committed. No
  view calls \<open>delete\<close> or assigns to a field of a loaded row. (\<open>auth_callback\<close> adds a
  row to the \<open>User\<close> table, which the store leaves out.)
\<close>

datatype 'f request =
    CreateBusiness int "string option"
  | GetMovements int
  | PostMovement int "'f movement_data"
  | GetProducts int
  | PostProduct int "'f product_data"
  | PlotSales "int option" date
  | PlotCategory "int option"
  | PredictSales int
  | Ticket int
  | ExportCsv int
  | ExportXlsx int
  | FiscalReport int int int

fun store_after :: "('f, 'm) pylib \<Rightarrow> 'f request \<Rightarrow> 'f store \<Rightarrow> 'f store" where
  "store_after lib (CreateBusiness uid form_name) st =
     (case create_business uid form_name st of Inl e \<Rightarrow> st | Inr st' \<Rightarrow> st')"
| "store_after lib (PostMovement bid data) st =
     (case api_movements_post lib bid data st of Inl e \<Rightarrow> st | Inr r \<Rightarrow> fst r)"
| "store_after lib (PostProduct bid data) st =
     (case api_products_post lib bid data st of Inl e \<Rightarrow> st | Inr r \<Rightarrow> fst r)"
| "store_after lib _ st = st"

definition run :: "('f, 'm) pylib \<Rightarrow> 'f request list \<Rightarrow> 'f store \<Rightarrow> 'f store" where
  "run lib rs st = fold (store_after lib) rs st"

subsection \<open>A sample library for the examples\<close>

text \<open>
  The general theorems hold for every \<open>pylib\<close>. The closed examples need one; \<open>stdlib\<close>
  works on reals that stand for finite doubles.

  \<open>fl x\<close> is \<open>x\<close> rounded to 53 significant bits, to nearest and ties to even: the
  rounding of IEEE 754 binary64 wherever the result is a normal number (overflow and
  subnormal numbers are left out). Sums add from the left and round after each
  addition, as SQLite's \<open>SUM\<close> and Python's \<open>sum\<close> do unless they compensate for
  rounding; the examples are sums on which both ways agree. An integer converts to the
  nearest double, and \<open>float\<close> refuses the integers that round to \<open>2 ^ 1024\<close>.
\<close>

definition pow2 :: "int \<Rightarrow> real" where
  "pow2 i = (if 0 \<le> i then 2 ^ nat i else 1 / 2 ^ nat (- i))"

definition rne :: "real \<Rightarrow> int" where
  "rne q =
     (let f = \<lfloor>q\<rfloor>; r = q - of_int f
      in if r < 1 / 2 then f else if 1 / 2 < r then f + 1 else if even f then f else f + 1)"

definition fl :: "real \<Rightarrow> real" where
  "fl x =
     (if x = 0 then 0
      else (let u = pow2 (\<lfloor>log 2 \<bar>x\<bar>\<rfloor> - 52) in of_int (rne (x / u)) * u))"

definition naive_sum :: "real list \<Rightarrow> real" where
  "naive_sum xs = foldl (\<lambda>a x. fl (a + x)) 0 xs"

definition double_of_int :: "int \<Rightarrow> real option" where
  "double_of_int n = (if 2 ^ 1024 - 2 ^ 970 \<le> \<bar>n\<bar> then None else Some (fl (of_int n)))"

text \<open>
  \<open>stdlib\<close> reads the strings \<open>YYYY-MM-DD\<close> and \<open>YYYY-MM-DD?HH:MM:SS\<close> (any separator) of
  decimal digits as \<open>datetime.fromisoformat\<close> does, and a string of decimal digits as
  \<open>float\<close> and \<open>int\<close> do. On other strings it answers \<open>None\<close>, which the examples never
  use.
\<close>

definition digit :: "char \<Rightarrow> int option" where
  "digit c =
     (let n = (of_char c :: nat) in if 48 \<le> n \<and> n \<le> 57 then Some (int n - 48) else None)"

definition number :: "string \<Rightarrow> int option" where
  "number s =
     (if s = [] then None
      else foldl (\<lambda>acc c. case acc of None \<Rightarrow> None
                          | Some a \<Rightarrow> (case digit c of None \<Rightarrow> None | Some d \<Rightarrow> Some (10 * a + d)))
             (Some 0) s)"

definition iso_date :: "string \<Rightarrow> date option" where
  "iso_date s =
     (if length s = 10 \<and> s ! 4 = CHR ''-'' \<and> s ! 7 = CHR ''-'' then
        (case (number (take 4 s), number (take 2 (drop 5 s)), number (drop 8 s)) of
           (Some y, Some m, Some d) \<Rightarrow>
             (case py_date y m d of Inl e \<Rightarrow> None | Inr x \<Rightarrow> Some x)
         | _ \<Rightarrow> None)
      else None)"

definition iso_time :: "string \<Rightarrow> time_of_day option" where
  "iso_time s =
     (if length s = 8 \<and> s ! 2 = CHR '':'' \<and> s ! 5 = CHR '':'' then
        (case (number (take 2 s), number (take 2 (drop 3 s)), number (drop 6 s)) of
           (Some h, Some mi, Some se) \<Rightarrow>
             (if h < 24 \<and> mi < 60 \<and> se < 60 then Some (nat h, nat mi, nat se) else None)
         | _ \<Rightarrow> None)
      else None)"

definition iso_datetime :: "string \<Rightarrow> (date \<times> time_of_day) option" where
  "iso_datetime s =
     (case iso_date (take 10 s) of
        None \<Rightarrow> None
      | Some d \<Rightarrow>
          (if length s = 10 then Some (d, (0, 0, 0))
           else if length s = 19 then
             (case iso_time (drop 11 s) of None \<Rightarrow> None | Some t \<Rightarrow> Some (d, t))
           else None))"

text \<open>
  The regression of the sample library is the least-squares line in exact arithmetic,
  computed as scikit-learn does (centre the data, solve, recover the intercept).
  scikit-learn works in doubles, so its numbers differ from these by rounding; the
  examples state no predicted value. The timestamps of the sample library cover all of
  \<open>datetime.date\<close>, the widest range a pandas version can have.
\<close>

record linear_regression =
  coef :: real
  intercept :: real

definition ols :: "int list \<Rightarrow> real list \<Rightarrow> linear_regression" where
  "ols X y =
     (let X_offset = sum_list (map real_of_int X) / real (length X);
          y_offset = sum_list y / real (length y);
          sxy = sum_list (map (\<lambda>(x, v). (real_of_int x - X_offset) * (v - y_offset)) (zip X y));
          sxx = sum_list (map (\<lambda>x. (real_of_int x - X_offset) * (real_of_int x - X_offset)) X);
          c = sxy / sxx
      in \<lparr>coef = c, intercept = y_offset - X_offset * c\<rparr>)"

definition stdlib :: "(real, linear_regression) pylib" where
  "stdlib =
     \<lparr>fromisoformat = iso_datetime,
      float_of_str = (\<lambda>s. case number s of None \<Rightarrow> None | Some n \<Rightarrow> double_of_int n),
      float_of_int = double_of_int,
      int_of_str = number,
      int_of_float = (\<lambda>x. Inr (if 0 \<le> x then \<lfloor>x\<rfloor> else \<lceil>x\<rceil>)),
      isnan = (\<lambda>x. False),
      fzero = 0,
      is_zero = (\<lambda>x. x = 0),
      fsub = (\<lambda>a b. fl (a - b)),
      py_sum = naive_sum,
      sqlite_sum = naive_sum,
      ts_min = 1,
      ts_max = MAXORDINAL,
      linreg_fit = (\<lambda>X y. Some (ols X y)),
      linreg_predict = (\<lambda>model x. coef model * real_of_int x + intercept model)\<rparr>"

subsection \<open>Sample ledgers\<close>

definition mov ::
  "int \<Rightarrow> int \<Rightarrow> date \<Rightarrow> string \<Rightarrow> real \<Rightarrow> string option \<Rightarrow> real movement" where
  "mov i b d k a c =
     \<lparr>m_id = i, business_id = b, date = d, time = (0, 0, 0), tipo = k, amount = a,
      category = c, m_note = None\<rparr>"

definition ledger :: "real movement list \<Rightarrow> real store" where
  "ledger ms = \<lparr>businesses = [], products = [], movements = ms\<rparr>"

text \<open>Business 1 has one expense of 50 on 2024-01-31 (ordinal 738916) and no sale.\<close>

definition expense_only :: "real store" where
  "expense_only = ledger [mov 1 1 738916 ''gasto'' 50 None]"

text \<open>
  Business 1 sells 10, 20, 30, 40 and 50 on 2024-01-01 .. 2024-01-05 (ordinals 738886 ..
  738890, two sales on the first day), has an expense on 2024-01-03 and a movement of
  another kind; business 2 has one sale.
\<close>

definition five_days :: "real store" where
  "five_days = ledger
     [mov 1 1 738886 ''venta'' 4 (Some ''a''),
      mov 2 1 738886 ''venta'' 6 (Some ''a''),
      mov 3 1 738887 ''venta'' 20 None,
      mov 4 2 738887 ''venta'' 7 None,
      mov 5 1 738888 ''venta'' 30 None,
      mov 6 1 738888 ''gasto'' 12 (Some ''rent''),
      mov 7 1 738889 ''venta'' 40 None,
      mov 8 1 738890 ''venta'' 50 None,
      mov 9 1 738890 ''otro'' 5 None]"

text \<open>The spec's example: rent 50 and 30, and 20 with no category.\<close>

definition rent_ledger :: "real store" where
  "rent_ledger = ledger
     [mov 1 1 738886 ''gasto'' 50 (Some ''rent''),
      mov 2 1 738887 ''gasto'' 30 (Some ''rent''),
      mov 3 1 738888 ''venta'' 20 None]"

text \<open>One movement with no category and one whose category is the empty string.\<close>

definition blank_ledger :: "real store" where
  "blank_ledger = ledger
     [mov 1 1 738886 ''venta'' 20 None,
      mov 2 1 738886 ''venta'' 5 (Some [])]"

text \<open>Business 1 has one sale of \<open>1e19\<close> on 2024-01-01.\<close>

definition big_day :: "real store" where
  "big_day = ledger [mov 1 1 738886 ''venta'' 10000000000000000000 None]"

text \<open>
  Business 1 sells on the last five days of the calendar, 9999-12-27 .. 9999-12-31
  (ordinals 3652055 .. 3652059).
\<close>

definition last_days :: "real store" where
  "last_days = ledger
     [mov 1 1 3652055 ''venta'' 10 None,
      mov 2 1 3652056 ''venta'' 20 None,
      mov 3 1 3652057 ''venta'' 30 None,
      mov 4 1 3652058 ''venta'' 40 None,
      mov 5 1 3652059 ''venta'' 50 None]"

text \<open>
  Business 1 around the turn of the year: a sale on 2023-11-30 (ordinal 738854), sales on
  2023-12-01 (738855) and 2023-12-31 (738885), an expense on 2023-12-31 and a sale on
  2024-01-01 (738886); business 2 has a sale in December.
\<close>

definition year_end :: "real store" where
  "year_end = ledger
     [mov 1 1 738854 ''venta'' 1 None,
      mov 2 1 738855 ''venta'' 2 None,
      mov 3 1 738885 ''venta'' 3 None,
      mov 4 1 738885 ''gasto'' 1 None,
      mov 5 1 738886 ''venta'' 5 None,
      mov 6 2 738870 ''venta'' 9 None]"

text \<open>A sale of 100 on 2024-01-01.\<close>

definition sale_request :: "real movement_data" where
  "sale_request =
     \<lparr>d_date = Some ''2024-01-01'', d_time = Some ''2024-01-01T10:30:00'',
      d_tipo = Some ''venta'', d_amount = Some (JInt 100),
      d_category = None, d_note = None\<rparr>"

text \<open>A negative amount and a kind that is neither literal.\<close>

definition odd_request :: "real movement_data" where
  "odd_request =
     \<lparr>d_date = Some ''2024-01-01'', d_time = Some ''2024-01-01T10:30:00'',
      d_tipo = Some ''otro'', d_amount = Some (JInt (- 5)),
      d_category = None, d_note = None\<rparr>"

section \<open>Properties\<close>

subsection \<open>Rounding in the sample library\<close>

lemma pow2_powr: "pow2 i = 2 powr (of_int i)"
  by (simp add: pow2_def powr_int)

lemma pow2_pos: "0 < pow2 i"
  by (simp add: pow2_def)

lemma floor_log2:
  assumes "pow2 n \<le> \<bar>x\<bar>" "\<bar>x\<bar> < pow2 (n + 1)"
  shows "\<lfloor>log 2 \<bar>x\<bar>\<rfloor> = n"
proof (rule floor_unique)
  have pos: "0 < \<bar>x\<bar>" using assms(1) pow2_pos [of n] by linarith
  show "of_int n \<le> log 2 \<bar>x\<bar>"
    using assms(1) pos by (simp add: le_log_iff pow2_powr)
  show "log 2 \<bar>x\<bar> < of_int n + 1"
    using assms(2) pos by (simp add: log_less_iff pow2_powr)
qed

lemma rne_of_int: "rne (of_int k) = k"
  by (simp add: rne_def)

text \<open>An integer below \<open>2 ^ 53\<close> is a double: rounding leaves it as it is.\<close>

lemma fl_small_int:
  assumes "x \<in> \<int>" "\<bar>x\<bar> < 2 ^ 53"
  shows "fl x = x"
proof (cases "x = 0")
  case True
  then show ?thesis by (simp add: fl_def)
next
  case False
  from assms(1) obtain k where k: "x = of_int k" by (auto elim: Ints_cases)
  with False have "k \<noteq> 0" by auto
  then have one: "1 \<le> \<bar>x\<bar>" by (simp add: k) 
  define e where "e = \<lfloor>log 2 \<bar>x\<bar>\<rfloor>"
  have "0 \<le> log 2 \<bar>x\<bar>" using one by simp
  then have e0: "0 \<le> e" by (simp add: e_def)
  have "log 2 \<bar>x\<bar> < 53"
    using assms(2) one log_less_iff [of 2 "\<bar>x\<bar>" 53] by (simp add: powr_realpow [of 2 53, simplified])
  then have e52: "e \<le> 52" by (simp add: e_def floor_le_iff)
  define j where "j = nat (52 - e)"
  have u: "pow2 (e - 52) = 1 / 2 ^ j"
    using e52 by (cases "e = 52") (simp_all add: pow2_def j_def)
  have "x / pow2 (e - 52) = of_int (k * 2 ^ j)"
    by (simp add: u k)
  then have "rne (x / pow2 (e - 52)) = k * 2 ^ j"
    by (simp only: rne_of_int)
  moreover have "fl x = of_int (rne (x / pow2 (e - 52))) * pow2 (e - 52)"
    using False by (simp add: fl_def e_def Let_def)
  ultimately show ?thesis
    by (simp add: u k)
qed

text \<open>Between \<open>2 ^ n\<close> and \<open>2 ^ (n + 1)\<close>, \<open>n \<ge> 52\<close>, the doubles are \<open>2 ^ (n - 52)\<close> apart.\<close>

lemma fl_big:
  assumes "2 ^ n \<le> \<bar>x\<bar>" "\<bar>x\<bar> < 2 ^ Suc n" "52 \<le> n"
  shows "fl x = of_int (rne (x / 2 ^ (n - 52))) * 2 ^ (n - 52)"
proof -
  have "\<lfloor>log 2 \<bar>x\<bar>\<rfloor> = int n"
    using assms by (intro floor_log2) (simp_all add: pow2_def nat_add_distrib)
  moreover have "x \<noteq> 0"
  proof
    assume "x = 0"
    with assms(1) have "(2::real) ^ n \<le> 0" by simp
    moreover have "(0::real) < 2 ^ n" by simp
    ultimately show False by linarith
  qed
  moreover have "pow2 (int n - 52) = 2 ^ (n - 52)"
    using assms(3) by (simp add: pow2_def nat_diff_distrib)
  ultimately show ?thesis by (simp add: fl_def Let_def)
qed

text \<open>
  \<open>1e19\<close> is a double, and the doubles next to it are 2048 apart: adding 100 to it gives
  \<open>1e19\<close> again.
\<close>

lemma fl_1e19:
  "fl 10000000000000000000 = 10000000000000000000"
  "fl (10000000000000000000 + 100) = 10000000000000000000"
  by (subst fl_big [where n = 63], simp_all add: rne_def)+

subsection \<open>Reading the movements of a business\<close>

lemma movs_business:
  "m \<in> set (movs st bid) \<longleftrightarrow> m \<in> set (movements st) \<and> business_id m = bid"
  by (simp add: movs_def)

text \<open>
  C8. Every entry of \<open>GET /api/<bid>/movements\<close> is the rendering of a stored movement
  whose \<open>business_id\<close> is \<open>bid\<close>. The rendering drops the business; as \<open>id\<close> is the
  primary key (the ids of a table are distinct, which every request preserves, see
  \<open>run_keys\<close> below), the second part says that no movement of another business is
  rendered in the reply, whatever the table holds.
\<close>

theorem api_movements_get_isolation:
  "(\<forall>j \<in> set (api_movements_get st bid).
      \<exists>m \<in> set (movements st). business_id m = bid \<and> j = to_json m) \<and>
   (distinct (map m_id (movements st)) \<longrightarrow>
      (\<forall>m \<in> set (movements st).
         business_id m \<noteq> bid \<longrightarrow> to_json m \<notin> set (api_movements_get st bid)))"
proof (intro conjI impI ballI)
  fix j assume "j \<in> set (api_movements_get st bid)"
  then show "\<exists>m \<in> set (movements st). business_id m = bid \<and> j = to_json m"
    by (auto simp: api_movements_get_def movs_business)
next
  fix m
  assume pk: "distinct (map m_id (movements st))"
    and m: "m \<in> set (movements st)" and other: "business_id m \<noteq> bid"
  show "to_json m \<notin> set (api_movements_get st bid)"
  proof
    assume "to_json m \<in> set (api_movements_get st bid)"
    then obtain m' where m': "m' \<in> set (movements st)" "business_id m' = bid"
      and eq: "to_json m = to_json m'"
      by (auto simp: api_movements_get_def movs_business)
    from eq have "m_id m = m_id m'" by (simp add: to_json_def)
    with pk m m'(1) have "m = m'"
      by (meson distinct_map inj_onD)
    with other m'(2) show False by simp
  qed
qed

theorem api_movements_get_isolation_witness:
  "distinct (map m_id (movements five_days)) \<and>
   api_movements_get five_days 2 = [to_json (mov 4 2 738887 ''venta'' 7 None)] \<and>
   mov 3 1 738887 ''venta'' 20 None \<in> set (movements five_days) \<and>
   to_json (mov 3 1 738887 ''venta'' 20 None) \<notin> set (api_movements_get five_days 2)"
  using api_movements_get_isolation [of five_days 2]
  by (simp add: api_movements_get_def movs_def five_days_def ledger_def mov_def to_json_def)

subsection \<open>The movement table only grows\<close>

lemma api_movements_post_movements:
  "api_movements_post lib bid data st = Inr r \<Longrightarrow>
     \<exists>m. movements (fst r) = movements st @ [m] \<and> business_id m = bid"
  by (auto simp: api_movements_post_def Let_def split: sum.splits if_splits)

lemma api_products_post_movements:
  "api_products_post lib bid data st = Inr r \<Longrightarrow> movements (fst r) = movements st"
  by (auto simp: api_products_post_def Let_def split: sum.splits if_splits)

lemma create_business_movements:
  "create_business uid nm st = Inr st' \<Longrightarrow> movements st' = movements st"
  by (auto simp: create_business_def split: sum.splits)

lemma store_after_cases:
  "movements (store_after lib r st) = movements st \<or>
   (\<exists>m. movements (store_after lib r st) = movements st @ [m])"
proof (cases r)
  case (CreateBusiness uid nm)
  then show ?thesis
    by (auto split: sum.splits dest: create_business_movements)
next
  case (PostMovement bid data)
  then show ?thesis
    by (auto split: sum.splits dest: api_movements_post_movements)
next
  case (PostProduct bid data)
  then show ?thesis
    by (auto split: sum.splits dest: api_products_post_movements)
qed simp_all

lemma store_after_prefix: "prefix (movements st) (movements (store_after lib r st))"
  using store_after_cases [of lib r st] by (auto simp: prefix_def)

lemma run_prefix: "prefix (movements st) (movements (run lib rs st))"
  unfolding run_def
proof (induction rs arbitrary: st)
  case Nil
  show ?case by simp
next
  case (Cons r rs)
  have "prefix (movements st) (movements (store_after lib r st))"
    by (rule store_after_prefix)
  also have "prefix \<dots> (movements (fold (store_after lib) rs (store_after lib r st)))"
    by (rule Cons.IH)
  finally show ?case by simp
qed

text \<open>
  C9. No request updates or deletes a movement. After one request the table is the old
  table, or the old table with one row appended; after any sequence of requests the old
  table is a prefix of the new one, so every row stored before is still there, in its
  place and with its fields.
\<close>

theorem movements_append_only:
  "prefix (movements st) (movements (store_after lib r st)) \<and>
   length (movements (store_after lib r st)) \<le> length (movements st) + 1 \<and>
   prefix (movements st) (movements (run lib rs st)) \<and>
   take (length (movements st)) (movements (run lib rs st)) = movements st"
proof -
  have "length (movements (store_after lib r st)) \<le> length (movements st) + 1"
    using store_after_cases [of lib r st] by auto
  moreover have "take (length (movements st)) (movements (run lib rs st)) = movements st"
    using run_prefix [of st lib rs] by (auto simp: prefix_def)
  ultimately show ?thesis
    by (simp add: store_after_prefix run_prefix)
qed

text \<open>
  The primary key stays a key: a new movement gets an \<open>id\<close> that no stored movement has.
\<close>

lemma fold_max_bounds:
  "(a::int) \<le> fold max ids a \<and> (\<forall>x \<in> set ids. x \<le> fold max ids a)"
proof (induction ids arbitrary: a)
  case Nil
  show ?case by simp
next
  case (Cons i ids)
  from Cons.IH [of "max i a"] show ?case by auto
qed

lemma next_id_fresh: "next_id ids \<notin> set ids"
  using fold_max_bounds [of 0 ids] by (auto simp: next_id_def)

lemma api_movements_post_keys:
  assumes "distinct (map m_id (movements st))"
    and "api_movements_post lib bid data st = Inr r"
  shows "distinct (map m_id (movements (fst r)))"
  using assms next_id_fresh [of "map m_id (movements st)"]
  by (auto simp: api_movements_post_def Let_def split: sum.splits if_splits)

lemma store_after_keys:
  assumes "distinct (map m_id (movements st))"
  shows "distinct (map m_id (movements (store_after lib r st)))"
proof (cases r)
  case (CreateBusiness uid nm)
  with assms show ?thesis
    by (auto split: sum.splits dest: create_business_movements)
next
  case (PostMovement bid data)
  with assms show ?thesis
    by (auto split: sum.splits dest: api_movements_post_keys)
next
  case (PostProduct bid data)
  with assms show ?thesis
    by (auto split: sum.splits dest: api_products_post_movements)
qed (use assms in simp_all)

lemma run_keys:
  "distinct (map m_id (movements st)) \<Longrightarrow> distinct (map m_id (movements (run lib rs st)))"
  unfolding run_def
  by (induction rs arbitrary: st) (simp_all add: store_after_keys)

subsection \<open>plot_sales\<close>

text \<open>
  The two series of the chart, for a \<open>today\<close> at least 29 days after \<open>date.min\<close> and a
  window that pandas represents: the 30 consecutive days that end today, and for each
  day the total of the amounts of all the movements of the business on that day, as
  SQLite adds them. The kind of a movement plays no part.
\<close>

lemma plot_sales_series:
  assumes "29 < today" "today \<le> MAXORDINAL" "ts_min lib \<le> today - 29" "today \<le> ts_max lib"
  shows "plot_sales lib st bid today =
     Inr ([today - 29..today], map (day_total lib st bid) [today - 29..today])"
proof -
  have "date_add_days today (- 29) = Inr (today - 29)"
    using assms by (simp add: date_add_days_def)
  then show ?thesis
    using assms by (simp add: plot_sales_def date_range_def Let_def)
qed

lemma stdlib_sums:
  "sqlite_sum stdlib = naive_sum" "py_sum stdlib = naive_sum" "fzero stdlib = 0"
  "is_zero stdlib = (\<lambda>x. x = 0)" "fsub stdlib = (\<lambda>a b. fl (a - b))"
  "ts_min stdlib = 1" "ts_max stdlib = MAXORDINAL" "isnan stdlib = (\<lambda>x. False)"
  by (simp_all add: stdlib_def)

text \<open>
  C1. The series is dense and in date order (\<open>plot_sales_series\<close>), but the total of a
  day is not the sum of its sales. Business 1 of \<open>expense_only\<close> has no movement of kind
  \<open>'venta'\<close>, and the chart titled "Ventas" shows 50 on 2024-01-31, the amount of its
  expense; \<open>predict_sales\<close> and \<open>fiscal_report\<close> do filter on \<open>tipo == 'venta'\<close>.
\<close>

theorem plot_sales_counts_expense:
  "plot_sales stdlib expense_only (Some 1) 738916 =
     Inr ([738887..738916], replicate 29 0 @ [50]) \<and>
   filter (\<lambda>m. tipo m = ''venta'') (movements expense_only) = []"
  by (simp add: plot_sales_def date_add_days_def MAXORDINAL_def date_range_def day_total_def
      or_0_def sql_sum_def stdlib_sums naive_sum_def fl_small_int expense_only_def ledger_def
      mov_def upto_rec1 numeral_eq_Suc)

subsection \<open>api_movements, POST\<close>

lemma stdlib_date: "fromisoformat stdlib ''2024-01-01'' = Some (738886, 0, 0, 0)"
  by (simp add: stdlib_def iso_datetime_def iso_date_def number_def digit_def py_date_def
      c_int_def ymd2ord_def MINYEAR_def MAXYEAR_def days_in_month_def days_before_month_def
      days_before_year_def DAYS_IN_MONTH_def DAYS_BEFORE_MONTH_def is_leap_def)

lemma stdlib_time: "fromisoformat stdlib ''2024-01-01T10:30:00'' = Some (738886, 10, 30, 0)"
  by (simp add: stdlib_def iso_datetime_def iso_date_def iso_time_def number_def digit_def
      py_date_def c_int_def ymd2ord_def MINYEAR_def MAXYEAR_def days_in_month_def
      days_before_month_def days_before_year_def DAYS_IN_MONTH_def DAYS_BEFORE_MONTH_def
      is_leap_def)

lemma stdlib_float:
  "py_float stdlib (JInt 100) = Inr 100" "py_float stdlib (JInt (- 5)) = Inr (- 5)"
  by (simp_all add: py_float_def stdlib_def double_of_int_def fl_small_int)

text \<open>
  What the POST view checks, and all it checks: the four required keys are there, the two
  strings parse, \<open>float\<close> reads the amount, the business id fits 64 bits and the amount is
  not NaN. Then the movement is appended with the next id, for every \<open>bid\<close>, whether or
  not a business has it, for every kind and for every amount, negative ones too.
\<close>

lemma api_movements_post_accepts:
  assumes "d_date data = Some ds" and "fromisoformat lib ds = Some (dd, t0)"
    and "d_time data = Some ts" and "fromisoformat lib ts = Some (d1, tt)"
    and "d_tipo data = Some tp"
    and "d_amount data = Some a" and "py_float lib a = Inr amt"
    and "sqlite_int bid" and "\<not> isnan lib amt"
  shows "api_movements_post lib bid data st =
     Inr (st\<lparr>movements := movements st @
               [\<lparr>m_id = next_id (map m_id (movements st)), business_id = bid, date = dd,
                 time = tt, tipo = tp, amount = amt, category = d_category data,
                 m_note = d_note data\<rparr>]\<rparr>,
          next_id (map m_id (movements st)))"
  using assms by (simp add: api_movements_post_def getitem_def parse_iso_def)

text \<open>
  When the view fails, an exception of Python or of the database driver leaves it; it has
  no reply of its own for a value it does not want.
\<close>

lemma api_movements_post_errors:
  "api_movements_post lib bid data st = Inl e \<Longrightarrow>
     e \<in> {KeyError, ValueError, TypeError, OverflowError, IntegrityError}"
  by (auto simp: api_movements_post_def getitem_def parse_iso_def py_float_def Let_def
      split: option.splits sum.splits jval.splits if_splits)

text \<open>
  C2. The view validates neither the amount nor the kind and looks no business up. An
  amount of -5 with the kind \<open>'otro'\<close>, posted to business 7 of a store that holds no
  business, is stored and answered with the new id, where the claim has a
  \<open>ValidationError\<close> or a \<open>NotFoundError\<close>. The model of the table says what is meant:
  \<open>tipo\<close> is \<open>'venta'\<close> or \<open>'gasto'\<close> (its comment), \<open>business_id\<close> is a foreign key into
  \<open>business\<close>.
\<close>

theorem api_movements_post_unchecked:
  "api_movements_post stdlib 7 odd_request (ledger []) =
     Inr (ledger [\<lparr>m_id = 1, business_id = 7, date = 738886, time = (10, 30, 0),
                   tipo = ''otro'', amount = - 5, category = None, m_note = None\<rparr>], 1)"
  using stdlib_date stdlib_time stdlib_float
  by (simp add: api_movements_post_def getitem_def parse_iso_def odd_request_def
      sqlite_int_def stdlib_sums ledger_def next_id_def)

subsection \<open>Recording a movement, then plotting\<close>

text \<open>
  C7, as the code has it. A movement recorded for business \<open>bid\<close> with date \<open>d0\<close> and
  amount \<open>x\<close> changes the series of \<open>plot_sales\<close> on the day \<open>d0\<close> only, whenever \<open>d0\<close> lies
  in the 30 days that end \<open>today\<close>. The new total of \<open>d0\<close> is what SQLite's \<open>SUM\<close> makes of
  the amounts the day had, followed by \<open>x\<close> (and 0 when that sum is NaN): a
  floating-point sum, which is the old total plus \<open>x\<close> only as far as the additions are
  exact.
\<close>

theorem record_then_plot_sales:
  assumes post: "api_movements_post lib bid data st = Inr (st', i)"
    and dt: "d_date data = Some ds" "fromisoformat lib ds = Some (d0, t0)"
    and am: "d_amount data = Some a" "py_float lib a = Inr x"
    and window: "today - 29 \<le> d0" "d0 \<le> today"
    and today: "29 < today" "today \<le> MAXORDINAL"
    and pandas: "ts_min lib \<le> today - 29" "today \<le> ts_max lib"
  shows "plot_sales lib st (Some bid) today =
           Inr ([today - 29..today], map (day_total lib st (Some bid)) [today - 29..today]) \<and>
         d0 \<in> set [today - 29..today] \<and>
         plot_sales lib st' (Some bid) today =
           Inr ([today - 29..today],
                map (\<lambda>d. if d = d0
                       then or_0 lib (sql_sum lib
                              (map amount (filter (\<lambda>m. business_id m = bid \<and> date m = d0)
                                 (movements st)) @ [x]))
                       else day_total lib st (Some bid) d)
                  [today - 29..today])"
proof -
  from post dt am obtain m where st': "st' = st\<lparr>movements := movements st @ [m]\<rparr>"
    and m: "business_id m = bid" "date m = d0" "amount m = x"
    by (auto simp: api_movements_post_def getitem_def parse_iso_def Let_def
        split: sum.splits option.splits if_splits)
  have step: "day_total lib st' (Some bid) =
      (\<lambda>d. if d = d0
         then or_0 lib (sql_sum lib
                (map amount (filter (\<lambda>m. business_id m = bid \<and> date m = d0) (movements st)) @ [x]))
         else day_total lib st (Some bid) d)"
    using m by (intro ext) (simp add: day_total_def st')
  have "d0 \<in> set [today - 29..today]"
    using window by simp
  then show ?thesis
    using plot_sales_series [OF today pandas, of st "Some bid"]
      plot_sales_series [OF today pandas, of st' "Some bid"]
    by (simp only: step simp_thms)
qed

lemma five_days_post:
  "api_movements_post stdlib 1 sale_request five_days =
     Inr (five_days\<lparr>movements := movements five_days @
            [mov 10 1 738886 ''venta'' 100 None\<lparr>time := (10, 30, 0)\<rparr>]\<rparr>, 10)"
  using stdlib_date stdlib_time stdlib_float
  by (simp add: api_movements_post_def getitem_def parse_iso_def sale_request_def
      sqlite_int_def stdlib_sums five_days_def ledger_def next_id_def mov_def)

theorem record_then_plot_sales_witness:
  "api_movements_post stdlib 1 sale_request five_days =
     Inr (five_days\<lparr>movements := movements five_days @
            [mov 10 1 738886 ''venta'' 100 None\<lparr>time := (10, 30, 0)\<rparr>]\<rparr>, 10) \<and>
   fromisoformat stdlib ''2024-01-01'' = Some (738886, (0, 0, 0)) \<and>
   day_total stdlib five_days (Some 1) 738886 = 10 \<and>
   plot_sales stdlib
       (five_days\<lparr>movements := movements five_days @
            [mov 10 1 738886 ''venta'' 100 None\<lparr>time := (10, 30, 0)\<rparr>]\<rparr>) (Some 1) 738900 =
     Inr ([738871..738900],
          map (\<lambda>d. if d = 738886 then 110 else day_total stdlib five_days (Some 1) d)
            [738871..738900])"
proof -
  have a: "d_date sale_request = Some ''2024-01-01''"
    and b: "d_amount sale_request = Some (JInt 100)"
    by (simp_all add: sale_request_def)
  have w: "(738900::int) - 29 \<le> 738886" "(738886::int) \<le> 738900" "(29::int) < 738900"
    "738900 \<le> MAXORDINAL" "ts_min stdlib \<le> 738900 - 29" "738900 \<le> ts_max stdlib"
    by (simp_all add: MAXORDINAL_def stdlib_sums)
  have before: "day_total stdlib five_days (Some 1) 738886 = 10"
    by (simp add: day_total_def or_0_def sql_sum_def stdlib_sums naive_sum_def fl_small_int
        five_days_def ledger_def mov_def)
  have after: "or_0 stdlib (sql_sum stdlib
      (map amount (filter (\<lambda>m. business_id m = 1 \<and> date m = 738886) (movements five_days)) @
       [100])) = 110"
    by (simp add: or_0_def sql_sum_def stdlib_sums naive_sum_def fl_small_int five_days_def
        ledger_def mov_def)
  from record_then_plot_sales [OF five_days_post a stdlib_date b stdlib_float(1) w]
  show ?thesis
    using five_days_post stdlib_date before by (simp only: after simp_thms) simp
qed

text \<open>
  C7 as stated fails. Business 1 of \<open>big_day\<close> has a sale of \<open>1e19\<close> on 2024-01-01. A sale
  of 100 recorded on that day is stored, and the total of the day is \<open>1e19\<close> before and
  after: the doubles around \<open>1e19\<close> are 2048 apart, and the sum rounds back.
\<close>

theorem record_then_plot_sales_rounds:
  "api_movements_post stdlib 1 sale_request big_day =
     Inr (store_after stdlib (PostMovement 1 sale_request) big_day, 2) \<and>
   movements (store_after stdlib (PostMovement 1 sale_request) big_day) =
     [mov 1 1 738886 ''venta'' 10000000000000000000 None,
      mov 2 1 738886 ''venta'' 100 None\<lparr>time := (10, 30, 0)\<rparr>] \<and>
   plot_sales stdlib big_day (Some 1) 738900 =
     Inr ([738871..738900], replicate 15 0 @ [10000000000000000000] @ replicate 14 0) \<and>
   plot_sales stdlib (store_after stdlib (PostMovement 1 sale_request) big_day) (Some 1) 738900 =
     Inr ([738871..738900], replicate 15 0 @ [10000000000000000000] @ replicate 14 0)"
proof -
  have post: "api_movements_post stdlib 1 sale_request big_day =
      Inr (big_day\<lparr>movements := movements big_day @
             [mov 2 1 738886 ''venta'' 100 None\<lparr>time := (10, 30, 0)\<rparr>]\<rparr>, 2)"
    using stdlib_date stdlib_time stdlib_float
    by (simp add: api_movements_post_def getitem_def parse_iso_def sale_request_def
        sqlite_int_def stdlib_sums big_day_def ledger_def next_id_def mov_def)
  have fl': "fl 10000000000000000100 = 10000000000000000000"
    using fl_1e19(2) by simp
  have before: "plot_sales stdlib big_day (Some 1) 738900 =
      Inr ([738871..738900], replicate 15 0 @ [10000000000000000000] @ replicate 14 0)"
    by (simp add: plot_sales_def date_add_days_def MAXORDINAL_def date_range_def day_total_def
        or_0_def sql_sum_def stdlib_sums naive_sum_def fl_1e19 big_day_def ledger_def
        mov_def upto_rec1 numeral_eq_Suc)
  have after: "plot_sales stdlib
       (big_day\<lparr>movements := movements big_day @
             [mov 2 1 738886 ''venta'' 100 None\<lparr>time := (10, 30, 0)\<rparr>]\<rparr>) (Some 1) 738900 =
      Inr ([738871..738900], replicate 15 0 @ [10000000000000000000] @ replicate 14 0)"
    by (simp add: plot_sales_def date_add_days_def MAXORDINAL_def date_range_def day_total_def
        or_0_def sql_sum_def stdlib_sums naive_sum_def fl_1e19 fl' big_day_def ledger_def
        mov_def upto_rec1 numeral_eq_Suc)
  have store: "store_after stdlib (PostMovement 1 sale_request) big_day =
      big_day\<lparr>movements := movements big_day @
             [mov 2 1 738886 ''venta'' 100 None\<lparr>time := (10, 30, 0)\<rparr>]\<rparr>"
    by (simp add: post)
  show ?thesis
    unfolding store using post before after
    by (simp add: big_day_def ledger_def)
qed

subsection \<open>The calendar month of fiscal_report\<close>

lemma div_step:
  fixes y k :: int
  assumes "0 < k"
  shows "y div k = (y - 1) div k + (if y mod k = 0 then 1 else 0)"
proof (cases "y mod k = 0")
  case True
  have "y - 1 = k * (y div k - 1) + (k - 1)"
    using True by (simp add: algebra_simps) (metis True add.right_neutral mult.commute mult_div_mod_eq)
  then have "(y - 1) div k = y div k - 1"
    using assms by (intro int_div_pos_eq [where r = "k - 1"]) simp_all
  with True show ?thesis by simp
next
  case False
  have "0 \<le> y mod k"
    using assms by simp
  with False have pos: "0 < y mod k"
    by linarith
  have "y - 1 = k * (y div k) + (y mod k - 1)"
    by simp
  moreover have "y mod k < k"
    using assms by simp
  ultimately have "(y - 1) div k = y div k"
    using pos by (intro int_div_pos_eq [where r = "y mod k - 1"]) simp_all
  with False show ?thesis by simp
qed

lemma leap_count:
  fixes a b c a' b' c' :: int
  assumes "a = a' + (if p4 then 1 else 0)"
    and "b = b' + (if p100 then 1 else 0)"
    and "c = c' + (if p400 then 1 else 0)"
    and "p400 \<Longrightarrow> p100" and "p100 \<Longrightarrow> p4"
  shows "a - b + c = a' - b' + c' + (if p4 \<and> (\<not> p100 \<or> p400) then 1 else 0)"
  using assms by (cases p4; cases p100; cases p400) simp_all

lemma year_length:
  fixes y a b c a' b' c' l :: int
  assumes "a - b + c = a' - b' + c' + l"
  shows "y * 365 + a - b + c = (y - 1) * 365 + a' - b' + c' + 365 + l"
  using assms by (simp add: algebra_simps)

lemma days_before_year_next:
  "days_before_year (y + 1) = days_before_year y + 365 + (if is_leap y then 1 else 0)"
proof -
  have m400: "y mod 100 = 0" if "y mod 400 = 0"
    using mod_mod_cancel [of 100 400 y] that by simp
  have m100: "y mod 4 = 0" if "y mod 100 = 0"
    using mod_mod_cancel [of 4 100 y] that by simp
  have "y div 4 - y div 100 + y div 400 =
      (y - 1) div 4 - (y - 1) div 100 + (y - 1) div 400 +
      (if y mod 4 = 0 \<and> (\<not> y mod 100 = 0 \<or> y mod 400 = 0) then 1 else 0)"
    by (rule leap_count [OF div_step div_step div_step m400 m100]) simp_all
  then have "y * 365 + y div 4 - y div 100 + y div 400 =
      (y - 1) * 365 + (y - 1) div 4 - (y - 1) div 100 + (y - 1) div 400 + 365 +
      (if y mod 4 = 0 \<and> (\<not> y mod 100 = 0 \<or> y mod 400 = 0) then 1 else 0)"
    by (rule year_length)
  moreover have "days_before_year (y + 1) = y * 365 + y div 4 - y div 100 + y div 400"
    unfolding days_before_year_def Let_def by simp
  moreover have "days_before_year y =
      (y - 1) * 365 + (y - 1) div 4 - (y - 1) div 100 + (y - 1) div 400"
    unfolding days_before_year_def Let_def by simp
  ultimately show ?thesis
    unfolding is_leap_def by (simp only: not_not)
qed

lemmas calendar_defs =
  ymd2ord_def days_in_month_def days_before_month_def DAYS_IN_MONTH_def DAYS_BEFORE_MONTH_def

text \<open>The ordinals of the dates in the sample ledgers.\<close>

lemma sample_dates:
  "ymd2ord 2023 11 30 = 738854" "ymd2ord 2023 12 1 = 738855" "ymd2ord 2023 12 31 = 738885"
  "ymd2ord 2024 1 1 = 738886" "ymd2ord 2024 1 5 = 738890" "ymd2ord 2024 1 15 = 738900"
  "ymd2ord 2024 1 31 = 738916" "ymd2ord 9999 12 27 = 3652055"
  "ymd2ord 9999 12 31 = MAXORDINAL"
  by (simp_all add: calendar_defs days_before_year_def is_leap_def MAXORDINAL_def)

lemma next_month_first:
  assumes "1 \<le> m" "m \<le> 11"
  shows "ymd2ord y (m + 1) 1 = ymd2ord y m (days_in_month y m) + 1"
proof -
  from assms have "m = 1 \<or> m = 2 \<or> m = 3 \<or> m = 4 \<or> m = 5 \<or> m = 6 \<or> m = 7 \<or> m = 8 \<or>
      m = 9 \<or> m = 10 \<or> m = 11"
    by arith
  then show ?thesis
    by (elim disjE) (simp_all add: calendar_defs)
qed

lemma next_year_first: "ymd2ord (y + 1) 1 1 = ymd2ord y 12 (days_in_month y 12) + 1"
  by (simp add: calendar_defs days_before_year_next)

lemma days_in_month_pos: "1 \<le> m \<Longrightarrow> m \<le> 12 \<Longrightarrow> 28 \<le> days_in_month y m \<and> days_in_month y m \<le> 31"
proof -
  assume "1 \<le> m" "m \<le> 12"
  then have "m = 1 \<or> m = 2 \<or> m = 3 \<or> m = 4 \<or> m = 5 \<or> m = 6 \<or> m = 7 \<or> m = 8 \<or>
      m = 9 \<or> m = 10 \<or> m = 11 \<or> m = 12"
    by arith
  then show ?thesis
    by (elim disjE) (simp_all add: calendar_defs)
qed

lemma days_before_month_bounds:
  "1 \<le> m \<Longrightarrow> m \<le> 12 \<Longrightarrow> 0 \<le> days_before_month y m \<and> days_before_month y m \<le> 335"
proof -
  assume "1 \<le> m" "m \<le> 12"
  then have "m = 1 \<or> m = 2 \<or> m = 3 \<or> m = 4 \<or> m = 5 \<or> m = 6 \<or> m = 7 \<or> m = 8 \<or>
      m = 9 \<or> m = 10 \<or> m = 11 \<or> m = 12"
    by arith
  then show ?thesis
    by (elim disjE) (simp_all add: calendar_defs)
qed

lemma days_before_year_mono: "y \<le> z \<Longrightarrow> days_before_year y \<le> days_before_year z"
proof (induction z rule: int_ge_induct)
  case base
  show ?case by simp
next
  case (step z)
  then show ?case by (simp add: days_before_year_next)
qed

lemma days_before_year_bounds:
  assumes "1 \<le> y" "y \<le> 10000"
  shows "0 \<le> days_before_year y \<and> days_before_year y \<le> 3652059"
proof -
  have "days_before_year 1 = 0" "days_before_year 10000 = 3652059"
    by (simp_all add: days_before_year_def)
  with days_before_year_mono [OF assms(1)] days_before_year_mono [OF assms(2)]
  show ?thesis by simp
qed

lemma ymd2ord_range:
  assumes "1 \<le> y" "y \<le> 9999" "1 \<le> m" "m \<le> 12" "1 \<le> d" "d \<le> days_in_month y m"
  shows "0 < ymd2ord y m d \<and> ymd2ord y m d \<le> MAXORDINAL"
proof -
  have "ymd2ord y m d \<le> ymd2ord y 12 31"
  proof (cases "m = 12")
    case True
    with assms days_in_month_pos [of 12 y] show ?thesis by (simp add: ymd2ord_def)
  next
    case False
    with assms have m: "m \<le> 11" by simp
    have "ymd2ord y m d \<le> ymd2ord y m (days_in_month y m)"
      using assms by (simp add: ymd2ord_def)
    also have "\<dots> < ymd2ord y (m + 1) 1"
      using next_month_first [OF assms(3) m, of y] by simp
    also have "\<dots> \<le> ymd2ord y 12 31"
    proof -
      have "days_before_month y (m + 1) \<le> 335"
        using days_before_month_bounds [of "m + 1" y] assms(3) m by simp
      moreover have "334 \<le> days_before_month y 12"
        by (simp add: calendar_defs)
      ultimately show ?thesis by (simp add: ymd2ord_def)
    qed
    finally show ?thesis by simp
  qed
  also have "\<dots> \<le> MAXORDINAL"
  proof -
    have "ymd2ord y 12 31 = days_before_year (y + 1)"
      using next_year_first [of y] by (simp add: calendar_defs)
    with days_before_year_bounds [of "y + 1"] assms(1,2) show ?thesis
      by (simp add: MAXORDINAL_def)
  qed
  finally have "ymd2ord y m d \<le> MAXORDINAL" .
  moreover have "0 < ymd2ord y m d"
    using days_before_year_bounds [of y] days_before_month_bounds [OF assms(3,4), of y]
      assms(1,2,5)
    by (simp add: ymd2ord_def)
  ultimately show ?thesis by simp
qed

lemma py_date_ok:
  "1 \<le> y \<Longrightarrow> y \<le> 9999 \<Longrightarrow> 1 \<le> m \<Longrightarrow> m \<le> 12 \<Longrightarrow> py_date y m 1 = Inr (ymd2ord y m 1)"
  using days_in_month_pos [of m y] by (simp add: py_date_def c_int_def MINYEAR_def MAXYEAR_def)

text \<open>Outside the years 1 .. 9999 and the months 1 .. 12 the first \<open>datetime(...)\<close> raises.\<close>

lemma fiscal_report_out_of_range:
  "year < 1 \<or> 9999 < year \<or> month < 1 \<or> 12 < month \<Longrightarrow>
     fiscal_report lib st bid year month =
       Inl (if c_int year \<and> c_int month then ValueError else OverflowError)"
  by (auto simp: fiscal_report_def py_date_def c_int_def MINYEAR_def MAXYEAR_def)

text \<open>
  The month window. For a year in 1 .. 9999 and a month in 1 .. 12, December 9999 apart,
  the rows are the movements of the business dated from the first day of the month to
  its last day, \<open>days_in_month year month\<close>, both included; for December the last day is
  found from 1 January of the next year. \<open>sales\<close> is Python's \<open>sum\<close> of the amounts of the
  rows of kind \<open>'venta'\<close>, \<open>expenses\<close> that of the rows of kind \<open>'gasto'\<close>, and \<open>profit\<close> is
  the floating-point difference of the two.
\<close>

lemma fiscal_report_month:
  assumes "1 \<le> year" "year \<le> 9999" "1 \<le> month" "month \<le> 12" "year < 9999 \<or> month < 12"
  shows "fiscal_report lib st bid year month =
     (let rows = filter (\<lambda>m. business_id m = bid \<and> ymd2ord year month 1 \<le> date m \<and>
                              date m \<le> ymd2ord year month (days_in_month year month))
                   (movements st);
          s = py_sum lib (map amount (filter (\<lambda>r. tipo r = ''venta'') rows));
          e = py_sum lib (map amount (filter (\<lambda>r. tipo r = ''gasto'') rows))
      in Inr \<lparr>f_year = year, f_month = month, sales = s, expenses = e,
              profit = fsub lib s e\<rparr>)"
proof -
  let ?last = "ymd2ord year month (days_in_month year month)"
  have start: "py_date year month 1 = Inr (ymd2ord year month 1)"
    using assms by (simp add: py_date_ok)
  have range: "0 < ?last \<and> ?last \<le> MAXORDINAL"
    using assms days_in_month_pos [of month year] by (intro ymd2ord_range) simp_all
  show ?thesis
  proof (cases "month = 12")
    case True
    with assms have "py_date (year + 1) 1 1 = Inr (ymd2ord (year + 1) 1 1)"
      by (simp add: py_date_ok)
    moreover have "date_add_days (ymd2ord (year + 1) 1 1) (- 1) = Inr ?last"
      using range True by (simp add: date_add_days_def next_year_first)
    ultimately show ?thesis
      using True start by (simp add: fiscal_report_def Let_def)
  next
    case False
    with assms have m: "month \<le> 11" by simp
    with assms have "py_date year (month + 1) 1 = Inr (ymd2ord year (month + 1) 1)"
      by (simp add: py_date_ok)
    moreover have "date_add_days (ymd2ord year (month + 1) 1) (- 1) = Inr ?last"
      using range by (simp add: date_add_days_def next_month_first [OF assms(3) m])
    ultimately show ?thesis
      using False start by (simp add: fiscal_report_def Let_def)
  qed
qed

lemma fiscal_report_year_end:
  "fiscal_report stdlib year_end 1 2023 12 =
     Inr \<lparr>f_year = 2023, f_month = 12, sales = 5, expenses = 1, profit = 4\<rparr> \<and>
   fiscal_report stdlib year_end 1 2024 1 =
     Inr \<lparr>f_year = 2024, f_month = 1, sales = 5, expenses = 0, profit = 5\<rparr>"
  using fiscal_report_month [of 2023 12 stdlib year_end 1]
    fiscal_report_month [of 2024 1 stdlib year_end 1]
  by (simp add: calendar_defs days_before_year_def is_leap_def stdlib_sums naive_sum_def
      fl_small_int year_end_def ledger_def mov_def)

text \<open>
  C3. The rollover of month 12 builds \<open>datetime(year + 1, 1, 1)\<close> to find the last day of
  December. For December 9999, a month of Python's calendar in which movements can be
  dated, that is \<open>datetime(10000, 1, 1)\<close>: it raises \<open>ValueError\<close>, and the view returns
  no summary, whatever the store holds. Every other month of the years 1 .. 9999 is
  summed as the claim says (\<open>fiscal_report_month\<close>), in floating point.
\<close>

theorem fiscal_report_december_9999: "fiscal_report lib st bid 9999 12 = Inl ValueError"
  by (simp add: fiscal_report_def py_date_def c_int_def MINYEAR_def MAXYEAR_def calendar_defs)

subsection \<open>Movements of another kind\<close>

lemma fiscal_report_profit:
  "fiscal_report lib st bid year month = Inr r \<Longrightarrow>
     profit r = fsub lib (sales r) (expenses r)"
  by (auto simp: fiscal_report_def Let_def split: sum.splits)

lemma api_movements_post_any_kind:
  "isl (api_movements_post lib bid (data\<lparr>d_tipo := Some k\<rparr>) st) =
   isl (api_movements_post lib bid (data\<lparr>d_tipo := Some ''venta''\<rparr>) st)"
  by (simp add: api_movements_post_def getitem_def Let_def split: sum.splits option.splits)

text \<open>
  C10. \<open>fiscal_report\<close> answers the same on a store and on the store without its
  movements of a kind other than \<open>'venta'\<close> and \<open>'gasto'\<close>: such movements reach neither
  total. The profit is the difference of the two totals, as Python subtracts floats. The
  POST view accepts or rejects a request without regard to its kind. In \<open>five_days\<close>
  business 1 has in January 2024 sales of 150 and expenses of 12 while its movements add
  up to 167.
\<close>

theorem fiscal_report_other_kinds:
  "fiscal_report lib (st\<lparr>movements :=
       filter (\<lambda>m. tipo m \<in> {''venta'', ''gasto''}) (movements st)\<rparr>) bid year month =
     fiscal_report lib st bid year month \<and>
   (case fiscal_report lib st bid year month of
      Inl e \<Rightarrow> True | Inr r \<Rightarrow> profit r = fsub lib (sales r) (expenses r)) \<and>
   isl (api_movements_post lib bid (data\<lparr>d_tipo := Some k\<rparr>) st) =
     isl (api_movements_post lib bid (data\<lparr>d_tipo := Some ''venta''\<rparr>) st)"
proof (intro conjI)
  show "fiscal_report lib (st\<lparr>movements :=
       filter (\<lambda>m. tipo m \<in> {''venta'', ''gasto''}) (movements st)\<rparr>) bid year month =
     fiscal_report lib st bid year month"
    by (simp add: fiscal_report_def Let_def split: sum.splits cong: rev_conj_cong)
  show "case fiscal_report lib st bid year month of
      Inl e \<Rightarrow> True | Inr r \<Rightarrow> profit r = fsub lib (sales r) (expenses r)"
    by (auto split: sum.splits dest: fiscal_report_profit)
  show "isl (api_movements_post lib bid (data\<lparr>d_tipo := Some k\<rparr>) st) =
     isl (api_movements_post lib bid (data\<lparr>d_tipo := Some ''venta''\<rparr>) st)"
    by (rule api_movements_post_any_kind)
qed

lemma fiscal_report_five_days:
  "fiscal_report stdlib five_days 1 2024 1 =
     Inr \<lparr>f_year = 2024, f_month = 1, sales = 150, expenses = 12, profit = 138\<rparr> \<and>
   py_sum stdlib (map amount
     (filter (\<lambda>m. business_id m = 1 \<and> 738886 \<le> date m \<and> date m \<le> 738916)
       (movements five_days))) = 167"
  by (simp add: fiscal_report_def py_date_def c_int_def date_add_days_def ymd2ord_def
      MINYEAR_def MAXYEAR_def MAXORDINAL_def days_in_month_def days_before_month_def
      days_before_year_def DAYS_IN_MONTH_def DAYS_BEFORE_MONTH_def is_leap_def stdlib_sums
      naive_sum_def fl_small_int five_days_def ledger_def mov_def)

subsection \<open>plot_category\<close>

lemma group_sum_map:
  "group_sum lib (map (\<lambda>m. (key m, amount m)) ms) =
     map (\<lambda>k. (k, sqlite_sum lib (map amount (filter (\<lambda>m. key m = k) ms))))
       (sort (remdups (map key ms)))"
proof -
  have "map snd (filter (\<lambda>r. fst r = k) (map (\<lambda>m. (key m, amount m)) ms)) =
      map amount (filter (\<lambda>m. key m = k) ms)" for k
    by (induction ms) simp_all
  then show ?thesis
    by (simp add: group_sum_def comp_def)
qed

lemma category_rows_eq:
  "category_rows lib st bid =
     map (\<lambda>c. (c, sqlite_sum lib (map amount
            (filter (\<lambda>m. Some (business_id m) = bid \<and> category m = c) (movements st)))))
       (sort (remdups (map category
          (filter (\<lambda>m. Some (business_id m) = bid) (movements st)))))"
  by (simp add: category_rows_def group_sum_map)

text \<open>
  The chart, entry by entry. It has one entry per distinct stored value of \<open>category\<close>
  among the movements of the business, the missing category \<open>None\<close> being one of the
  values, in the order of SQLite. The value of an entry is the total of the amounts of
  all the movements with that stored category, sales and expenses alike; its label is
  the category itself, or \<open>'sin-categoria'\<close> when the category is \<open>None\<close> or the empty
  string. There is no chart when one of the totals is NaN.
\<close>

lemma plot_category_entries:
  "plot_category lib st bid =
     (let cs = sort (remdups (map category
                 (filter (\<lambda>m. Some (business_id m) = bid) (movements st))));
          total = (\<lambda>c. sqlite_sum lib (map amount
                 (filter (\<lambda>m. Some (business_id m) = bid \<and> category m = c) (movements st))))
      in if list_ex (\<lambda>c. isnan lib (total c)) cs then Inl TypeError
         else Inr (map label cs, map total cs))"
proof -
  have ex: "list_ex (\<lambda>r. isnan lib (snd r)) (map (\<lambda>c. (c, f c)) cs) =
      list_ex (\<lambda>c. isnan lib (f c)) cs" for f :: "string option \<Rightarrow> 'a" and cs
    by (induction cs) simp_all
  show ?thesis
    unfolding plot_category_def category_rows_eq Let_def ex
    by (simp add: comp_def)
qed

text \<open>
  C6. The movements with no category are not counted under a single sentinel label, and
  the result is no mapping. \<open>r[0] or 'sin-categoria'\<close> replaces the empty string as well
  as \<open>None\<close>, and SQL groups the two apart: with one movement of no category and one whose
  category is the empty string the sentinel labels two entries, 20 and 5.
\<close>

theorem plot_category_sentinel_twice:
  "plot_category stdlib blank_ledger (Some 1) =
     Inr ([''sin-categoria'', ''sin-categoria''], [20, 5])"
  by (simp add: plot_category_def category_rows_def group_sum_def label_def stdlib_sums
      naive_sum_def fl_small_int blank_ledger_def ledger_def mov_def)

text \<open>
  The example of the spec: rent 50 and 30, and 20 without a category. SQLite lists the
  group of \<open>NULL\<close> first.
\<close>

lemma plot_category_rent:
  "plot_category stdlib rent_ledger (Some 1) = Inr ([''sin-categoria'', ''rent''], [20, 80])"
  by (simp add: plot_category_def category_rows_def group_sum_def label_def stdlib_sums
      naive_sum_def fl_small_int rent_ledger_def ledger_def mov_def)

subsection \<open>predict_sales\<close>

lemma sales_rows_eq:
  "sales_rows lib st bid =
     map (\<lambda>d. (d, sqlite_sum lib (map amount
            (filter (\<lambda>m. (business_id m = bid \<and> tipo m = ''venta'') \<and> date m = d) (movements st)))))
       (sort (remdups (map date
          (filter (\<lambda>m. business_id m = bid \<and> tipo m = ''venta'') (movements st)))))"
  by (simp add: sales_rows_def group_sum_map)

lemma sales_rows_dates:
  "map fst (sales_rows lib st bid) =
     sorted_list_of_set
       (date ` {m \<in> set (movements st). business_id m = bid \<and> tipo m = ''venta''})"
proof -
  let ?ms = "filter (\<lambda>m. business_id m = bid \<and> tipo m = ''venta'') (movements st)"
  have "map fst (sales_rows lib st bid) = sort (remdups (map date ?ms))"
    by (simp add: sales_rows_eq comp_def)
  also have "\<dots> = sorted_list_of_set (set (map date ?ms))"
    by (simp only: sorted_list_of_set_sort_remdups)
  also have "set (map date ?ms) =
      date ` {m \<in> set (movements st). business_id m = bid \<and> tipo m = ''venta''}"
    by auto
  finally show ?thesis .
qed

lemma sales_rows_totals:
  "map snd (sales_rows lib st bid) =
     map (\<lambda>d. sqlite_sum lib (map amount
            (filter (\<lambda>m. (business_id m = bid \<and> tipo m = ''venta'') \<and> date m = d) (movements st))))
       (map fst (sales_rows lib st bid))"
  by (simp add: sales_rows_eq comp_def)

lemma length_sales_rows:
  "length (sales_rows lib st bid) =
     card (date ` {m \<in> set (movements st). business_id m = bid \<and> tipo m = ''venta''})"
proof -
  have "length (sales_rows lib st bid) = length (map fst (sales_rows lib st bid))"
    by simp
  also have "\<dots> = card (date ` {m \<in> set (movements st). business_id m = bid \<and> tipo m = ''venta''})"
    unfolding sales_rows_dates by simp
  finally show ?thesis .
qed

lemma set_sales_rows:
  "set (map fst (sales_rows lib st bid)) =
     date ` {m \<in> set (movements st). business_id m = bid \<and> tipo m = ''venta''}"
  unfolding sales_rows_dates by simp

lemma week: "map (\<lambda>i. l + i) [1..7] = [l + 1..l + 7]" for l :: int
  by (simp add: upto_rec1)

text \<open>
  The 400 reply: \<open>predict_sales\<close> answers \<open>NotEnoughData\<close> exactly when the movements of
  kind \<open>'venta'\<close> of the business fall on fewer than 5 distinct dates.
\<close>

lemma predict_sales_not_enough_data:
  "predict_sales lib st bid = Inl NotEnoughData \<longleftrightarrow>
     card (date ` {m \<in> set (movements st). business_id m = bid \<and> tipo m = ''venta''}) < 5"
  unfolding length_sales_rows [of lib st bid, symmetric]
  by (simp add: predict_sales_def Let_def split: option.splits)

lemma predict_sales_business_2: "predict_sales stdlib five_days 2 = Inl NotEnoughData"
  by (simp add: predict_sales_def sales_rows_def group_sum_def five_days_def ledger_def mov_def)

text \<open>
  With 5 dates or more, all of them dates of pandas, a regression that returns a model
  and 7 following days inside the calendar and inside pandas, the forecast is returned.
\<close>

lemma predict_sales_returns:
  assumes "5 \<le> card (date ` {m \<in> set (movements st). business_id m = bid \<and> tipo m = ''venta''})"
    and "\<forall>d \<in> date ` {m \<in> set (movements st). business_id m = bid \<and> tipo m = ''venta''}.
           ts_min lib \<le> d \<and> d \<le> ts_max lib"
    and "linreg_fit lib (map fst (sales_rows lib st bid)) (map snd (sales_rows lib st bid)) =
           Some model"
    and "Max (date ` {m \<in> set (movements st). business_id m = bid \<and> tipo m = ''venta''}) + 7
           \<le> min (ts_max lib) MAXORDINAL"
  shows "predict_sales lib st bid =
     Inr (map (\<lambda>d. (d, linreg_predict lib model d))
       [Max (date ` {m \<in> set (movements st). business_id m = bid \<and> tipo m = ''venta''}) + 1..
        Max (date ` {m \<in> set (movements st). business_id m = bid \<and> tipo m = ''venta''}) + 7])"
proof -
  let ?D = "date ` {m \<in> set (movements st). business_id m = bid \<and> tipo m = ''venta''}"
  have enough: "\<not> length (sales_rows lib st bid) < 5"
    using assms(1) by (simp add: length_sales_rows)
  have "\<forall>d \<in> set (map fst (sales_rows lib st bid)). ts_min lib \<le> d \<and> d \<le> ts_max lib"
    using assms(2) unfolding set_sales_rows .
  then have inside: "list_all (\<lambda>r. ts_min lib \<le> fst r \<and> fst r \<le> ts_max lib) (sales_rows lib st bid)"
    by (simp add: list_all_iff)
  have days: "list_all (forecast_day lib) [Max ?D + 1..Max ?D + 7]"
    using assms(4) by (auto simp: list_all_iff forecast_day_def)
  show ?thesis
    using enough inside days assms(3)
    by (simp add: predict_sales_def Let_def week set_sales_rows [simplified])
qed

text \<open>
  C4. \<open>NotEnoughData\<close> is the answer exactly below 5 sale dates
  (\<open>predict_sales_not_enough_data\<close>), but 5 sale dates do not always give a forecast.
  Business 1 of \<open>last_days\<close> has sales on the five days 9999-12-27 .. 9999-12-31. The view
  gets past the test on the number of rows and then fails: the day after the last sale
  is no date any more, \<open>pd.to_datetime(last) + pd.Timedelta(days=1)\<close> raises, and no
  forecast is returned.
\<close>

theorem predict_sales_last_days:
  "card (date ` {m \<in> set (movements last_days). business_id m = 1 \<and> tipo m = ''venta''}) = 5 \<and>
   predict_sales stdlib last_days 1 = Inl OutOfBounds"
proof -
  have rows: "sales_rows stdlib last_days 1 =
      [(3652055, 10), (3652056, 20), (3652057, 30), (3652058, 40), (3652059, 50)]"
    by (simp add: sales_rows_def group_sum_def stdlib_sums naive_sum_def fl_small_int
        last_days_def ledger_def mov_def)
  have "length (sales_rows stdlib last_days 1) = 5"
    by (simp only: rows) simp
  then have "card (date ` {m \<in> set (movements last_days). business_id m = 1 \<and> tipo m = ''venta''}) = 5"
    by (simp only: length_sales_rows)
  moreover have "predict_sales stdlib last_days 1 = Inl OutOfBounds"
    unfolding predict_sales_def rows
    by (simp add: Let_def stdlib_def forecast_day_def MAXORDINAL_def upto_rec1)
  ultimately show ?thesis by simp
qed

text \<open>
  The same holds for every library: when the week after the last sale date does not fit
  the calendar, the view returns no forecast.
\<close>

lemma predict_sales_end_of_calendar:
  assumes "MAXORDINAL <
      Max (date ` {m \<in> set (movements st). business_id m = bid \<and> tipo m = ''venta''}) + 7"
  shows "\<exists>e. predict_sales lib st bid = Inl e"
proof -
  have "\<not> list_all (forecast_day lib) (map (\<lambda>i. l + i) [1..7])" if "MAXORDINAL < l + 7" for l
    using that by (auto simp: week list_all_iff forecast_day_def intro!: bexI [of _ "l + 7"])
  from this [OF assms] show ?thesis
    by (simp add: predict_sales_def Let_def set_sales_rows [simplified] split: option.splits)
qed

text \<open>
  The regression of the sample library is a least-squares line: over a finite set of
  points no other line has a smaller sum of squared residuals.
\<close>

lemma least_squares:
  fixes x y :: "'a \<Rightarrow> real"
  assumes fin: "finite D"
  defines "xm \<equiv> sum x D / real (card D)"
    and "ym \<equiv> sum y D / real (card D)"
  defines "c \<equiv> (\<Sum>d\<in>D. (x d - xm) * (y d - ym)) / (\<Sum>d\<in>D. (x d - xm) * (x d - xm))"
  defines "b \<equiv> ym - xm * c"
  shows "(\<Sum>d\<in>D. (y d - (c * x d + b))\<^sup>2) \<le> (\<Sum>d\<in>D. (y d - (p * x d + q))\<^sup>2)"
proof (cases "D = {}")
  case True
  then show ?thesis by simp
next
  case False
  with fin have n: "0 < real (card D)" by (simp add: card_gt_0_iff)
  let ?u = "\<lambda>d. x d - xm" and ?v = "\<lambda>d. y d - ym"
  let ?r = "\<lambda>d. y d - (c * x d + b)"
  let ?e = "\<lambda>d. (c - p) * x d + (b - q)"
  have su: "sum ?u D = 0" and sv: "sum ?v D = 0"
    using n by (simp_all add: sum_subtractf xm_def ym_def)
  have suu: "c * (\<Sum>d\<in>D. ?u d * ?u d) = (\<Sum>d\<in>D. ?u d * ?v d)"
  proof (cases "(\<Sum>d\<in>D. ?u d * ?u d) = 0")
    case True
    then have "\<forall>d\<in>D. ?u d * ?u d = 0"
      using fin by (subst (asm) sum_nonneg_eq_0_iff) simp_all
    then have "(\<Sum>d\<in>D. ?u d * ?v d) = 0"
      by (intro sum.neutral) auto
    with True show ?thesis by simp
  next
    case False
    then show ?thesis by (simp add: c_def)
  qed
  have r: "?r d = ?v d - c * ?u d" for d
    by (simp add: b_def algebra_simps)
  have sr: "sum ?r D = 0"
  proof -
    have "sum ?r D = sum ?v D - (\<Sum>d\<in>D. c * ?u d)"
      by (simp only: r sum_subtractf)
    also have "(\<Sum>d\<in>D. c * ?u d) = c * sum ?u D"
      by (simp only: sum_distrib_left)
    finally show ?thesis
      by (simp only: su sv)
  qed
  have sru: "(\<Sum>d\<in>D. ?r d * ?u d) = 0"
  proof -
    have "(\<Sum>d\<in>D. ?r d * ?u d) = (\<Sum>d\<in>D. ?u d * ?v d - c * (?u d * ?u d))"
      by (intro sum.cong refl) (simp add: b_def algebra_simps)
    also have "\<dots> = (\<Sum>d\<in>D. ?u d * ?v d) - c * (\<Sum>d\<in>D. ?u d * ?u d)"
      by (simp only: sum_subtractf sum_distrib_left)
    finally show ?thesis
      by (simp only: suu)
  qed
  have srx: "(\<Sum>d\<in>D. ?r d * x d) = 0"
  proof -
    have "(\<Sum>d\<in>D. ?r d * x d) = (\<Sum>d\<in>D. ?r d * ?u d + xm * ?r d)"
      by (intro sum.cong refl) (simp add: algebra_simps)
    also have "\<dots> = (\<Sum>d\<in>D. ?r d * ?u d) + xm * sum ?r D"
      by (simp only: sum.distrib sum_distrib_left)
    finally show ?thesis
      by (simp only: sr sru)
  qed
  have cross: "(\<Sum>d\<in>D. ?r d * ?e d) = 0"
  proof -
    have "(\<Sum>d\<in>D. ?r d * ?e d) = (\<Sum>d\<in>D. (c - p) * (?r d * x d) + (b - q) * ?r d)"
      by (intro sum.cong refl) (simp add: algebra_simps)
    also have "\<dots> = (c - p) * (\<Sum>d\<in>D. ?r d * x d) + (b - q) * sum ?r D"
      by (simp only: sum.distrib sum_distrib_left)
    finally show ?thesis
      by (simp only: sr srx)
  qed
  have sq: "(s + t)\<^sup>2 = s\<^sup>2 + 2 * (s * t) + t\<^sup>2" for s t :: real
    by (simp add: power2_eq_square algebra_simps)
  have "(\<Sum>d\<in>D. (y d - (p * x d + q))\<^sup>2) = (\<Sum>d\<in>D. (?r d + ?e d)\<^sup>2)"
    by (intro sum.cong refl) (simp add: algebra_simps)
  also have "\<dots> = (\<Sum>d\<in>D. (?r d)\<^sup>2 + 2 * (?r d * ?e d) + (?e d)\<^sup>2)"
    by (simp only: sq)
  also have "\<dots> = (\<Sum>d\<in>D. (?r d)\<^sup>2) + 2 * (\<Sum>d\<in>D. ?r d * ?e d) + (\<Sum>d\<in>D. (?e d)\<^sup>2)"
    by (simp only: sum.distrib sum_distrib_left)
  also have "\<dots> = (\<Sum>d\<in>D. (?r d)\<^sup>2) + (\<Sum>d\<in>D. (?e d)\<^sup>2)"
    by (simp add: cross)
  finally have "(\<Sum>d\<in>D. (y d - (p * x d + q))\<^sup>2) =
      (\<Sum>d\<in>D. (?r d)\<^sup>2) + (\<Sum>d\<in>D. (?e d)\<^sup>2)" .
  moreover have "0 \<le> (\<Sum>d\<in>D. (?e d)\<^sup>2)"
    by (intro sum_nonneg) simp
  ultimately show ?thesis
    by linarith
qed

lemma ols_distinct:
  assumes "distinct ds"
  shows "ols ds (map y ds) =
     (let D = set ds;
          xm = sum real_of_int D / real (card D);
          ym = sum y D / real (card D);
          c = (\<Sum>d\<in>D. (real_of_int d - xm) * (y d - ym)) /
              (\<Sum>d\<in>D. (real_of_int d - xm) * (real_of_int d - xm))
      in \<lparr>coef = c, intercept = ym - xm * c\<rparr>)"
proof -
  have sums: "sum_list (map f ds) = sum f (set ds)" for f :: "int \<Rightarrow> real"
    using assms by (rule sum_list_distinct_conv_sum_set)
  have len: "length ds = card (set ds)"
    using assms by (simp add: distinct_card)
  have zip: "map (\<lambda>(a, v). (real_of_int a - xm) * (v - ym)) (zip ds (map y ds)) =
      map (\<lambda>d. (real_of_int d - xm) * (y d - ym)) ds" for xm ym
    by (induction ds) simp_all
  show ?thesis
    by (simp only: ols_def Let_def zip sums length_map len)
qed

lemma ols_least_squares:
  assumes "distinct ds"
  shows "(\<Sum>d\<in>set ds. (y d - (coef (ols ds (map y ds)) * real_of_int d +
                               intercept (ols ds (map y ds))))\<^sup>2) \<le>
         (\<Sum>d\<in>set ds. (y d - (p * real_of_int d + q))\<^sup>2)"
  using least_squares [of "set ds" y real_of_int p q]
  unfolding ols_distinct [OF assms] by (simp add: Let_def)

text \<open>
  C5. Let \<open>D\<close> be the set of dates on which the business has a movement of kind \<open>'venta'\<close>
  and \<open>total d\<close> what SQLite's \<open>SUM\<close> makes of the amounts of those movements on day \<open>d\<close>.
  When \<open>predict_sales\<close> returns a forecast, \<open>D\<close> has at least 5 dates; the model is the
  \<open>LinearRegression\<close> fitted to the points \<open>(d, total d)\<close> for the dates \<open>d\<close> of \<open>D\<close> in
  ascending order, one point per date with a sale and none for the days without; and the
  forecast has 7 entries, one for each of the 7 consecutive days after the latest date of
  \<open>D\<close>, in order, each day paired with the prediction of the model at its ordinal.
\<close>

theorem predict_sales_forecast:
  assumes "predict_sales lib st bid = Inr preds"
  shows "let D = date ` {m \<in> set (movements st). business_id m = bid \<and> tipo m = ''venta''};
             X = sorted_list_of_set D;
             total = (\<lambda>d. sqlite_sum lib (map amount
               (filter (\<lambda>m. (business_id m = bid \<and> tipo m = ''venta'') \<and> date m = d)
                 (movements st))))
         in 5 \<le> card D \<and> length preds = 7 \<and>
            (\<exists>model. linreg_fit lib X (map total X) = Some model \<and>
               preds = map (\<lambda>d. (d, linreg_predict lib model d)) [Max D + 1..Max D + 7])"
proof -
  let ?D = "date ` {m \<in> set (movements st). business_id m = bid \<and> tipo m = ''venta''}"
  let ?total = "\<lambda>d. sqlite_sum lib (map amount
      (filter (\<lambda>m. (business_id m = bid \<and> tipo m = ''venta'') \<and> date m = d) (movements st)))"
  let ?rows = "sales_rows lib st bid"
  from assms have enough: "\<not> length ?rows < 5"
    by (auto simp: predict_sales_def Let_def split: if_splits)
  with assms obtain model where fit: "linreg_fit lib (map fst ?rows) (map snd ?rows) = Some model"
    and preds: "preds = map (\<lambda>d. (d, linreg_predict lib model d))
        (map (\<lambda>i. Max (set (map fst ?rows)) + i) [1..7])"
    by (auto simp: predict_sales_def Let_def split: if_splits option.splits)
  have X: "map fst ?rows = sorted_list_of_set ?D"
    by (rule sales_rows_dates)
  have y: "map snd ?rows = map ?total (sorted_list_of_set ?D)"
    using sales_rows_totals [of lib st bid] unfolding X .
  have "5 \<le> card ?D"
    using enough by (simp add: length_sales_rows)
  moreover have "preds = map (\<lambda>d. (d, linreg_predict lib model d)) [Max ?D + 1..Max ?D + 7]"
    using preds unfolding week set_sales_rows .
  moreover have "length [Max ?D + 1..Max ?D + 7] = 7"
    by simp
  moreover have "linreg_fit lib (sorted_list_of_set ?D) (map ?total (sorted_list_of_set ?D)) =
      Some model"
    using fit unfolding X y .
  ultimately show ?thesis
    unfolding Let_def by auto
qed

lemma predict_sales_five_days:
  "predict_sales stdlib five_days 1 =
     Inr (map (\<lambda>d. (d, linreg_predict stdlib
                        (ols [738886, 738887, 738888, 738889, 738890] [10, 20, 30, 40, 50]) d))
            [738891..738897])"
proof -
  have rows: "sales_rows stdlib five_days 1 =
      [(738886, 10), (738887, 20), (738888, 30), (738889, 40), (738890, 50)]"
    by (simp add: sales_rows_def group_sum_def stdlib_sums naive_sum_def fl_small_int
        five_days_def ledger_def mov_def)
  have lib: "ts_min stdlib = 1" "ts_max stdlib = MAXORDINAL"
    "linreg_fit stdlib = (\<lambda>X y. Some (ols X y))"
    by (simp_all add: stdlib_def)
  show ?thesis
    unfolding predict_sales_def rows
    by (simp add: Let_def lib forecast_day_def MAXORDINAL_def upto_rec1)
qed

theorem predict_sales_forecast_witness:
  "predict_sales stdlib five_days 1 =
     Inr (map (\<lambda>d. (d, linreg_predict stdlib
                        (ols [738886, 738887, 738888, 738889, 738890] [10, 20, 30, 40, 50]) d))
            [738891..738897]) \<and>
   (let D = date ` {m \<in> set (movements five_days). business_id m = 1 \<and> tipo m = ''venta''};
        X = sorted_list_of_set D;
        total = (\<lambda>d. sqlite_sum stdlib (map amount
               (filter (\<lambda>m. (business_id m = 1 \<and> tipo m = ''venta'') \<and> date m = d)
                 (movements five_days))))
    in 5 \<le> card D \<and>
       length (map (\<lambda>d. (d, linreg_predict stdlib
                        (ols [738886, 738887, 738888, 738889, 738890] [10, 20, 30, 40, 50]) d))
            [738891..738897]) = 7 \<and>
       (\<exists>model. linreg_fit stdlib X (map total X) = Some model \<and>
          map (\<lambda>d. (d, linreg_predict stdlib
                        (ols [738886, 738887, 738888, 738889, 738890] [10, 20, 30, 40, 50]) d))
            [738891..738897] =
          map (\<lambda>d. (d, linreg_predict stdlib model d)) [Max D + 1..Max D + 7]))"
  using predict_sales_forecast [OF predict_sales_five_days] predict_sales_five_days
  by (simp only: simp_thms)

end
